theory Spec2Isabelle
  imports Main "HOL-Library.Word"
begin

section \<open>Virtual devices\<close>

text \<open>
  The network interface sub-resource of the virtual machine resource
  (package virtualdevice) and the clone workflow (package vmworkflow).
  Go's int32 is a 32-bit word read as two's complement: the comparisons of
  the source are the signed ones.
\<close>

type_synonym int32 = "32 word"
type_synonym int64 = "64 word"

text \<open>
  The dynamic type behind a BaseVirtualDevice or BaseVirtualEthernetCard
  interface value. The six card types are those of the type switches of the
  source; VirtualEthernetCard is the embedded base struct, which has the
  methods of a card but is none of the six; OtherDevice carries the name
  that the format verb percent-T prints.
\<close>

datatype device_type =
    VirtualE1000
  | VirtualE1000e
  | VirtualPCNet32
  | VirtualSriovEthernetCard
  | VirtualVmxnet2
  | VirtualVmxnet3
  | VirtualEthernetCard
  | OtherDevice string

record ManagedObjectReference =
  Type :: string
  Value :: string

record DistributedVirtualSwitchPortConnection =
  SwitchUuid :: string
  PortgroupKey :: string

text \<open>The backing of a card: the three kinds Read knows, any other kind by
  its type name, or the nil interface.\<close>

datatype backing =
    NetworkBackingInfo "ManagedObjectReference option"
  | OpaqueNetworkBackingInfo string
  | DistributedVirtualPortBackingInfo DistributedVirtualSwitchPortConnection
  | OtherBacking string
  | NilBacking

record SharesInfo =
  Shares :: int32
  Level :: string

record VirtualEthernetCardResourceAllocation =
  Reservation :: "int64 option"
  Share :: SharesInfo
  Limit :: "int64 option"

text \<open>VirtualDevice with the fields of VirtualEthernetCard that the
  sub-resource reads and writes; UnitNumber is a pointer in the source.\<close>

record VirtualDevice =
  DynType :: device_type
  Key :: int32
  ControllerKey :: int32
  UnitNumber :: "int32 option"
  Backing :: backing
  AddressType :: string
  MacAddress :: string
  ResourceAllocation :: "VirtualEthernetCardResourceAllocation option"

text \<open>Errors by the message the source builds; Panic is a run-time panic.\<close>

datatype error =
    NoMoreSlots
  | DeviceNotFound
  | CannotFindNetworkDevice error
  | NotNetworkDevice device_type
  | NoNetworkInformation
  | UnknownBacking backing
  | External string
  | Panic string

section \<open>assignEthernetCard\<close>

text \<open>
  The device to attach and the controller are pointers, and the list holds
  pointers: a store maps addresses to device records, the list is a list of
  addresses, and the function returns the store it leaves behind together
  with its error.
\<close>

type_synonym addr = nat
type_synonym store = "addr \<Rightarrow> VirtualDevice"

definition pciDeviceOffset :: int32 where
  "pciDeviceOffset = 7"

text \<open>The first loop: mark the units in use on the controller; a device of
  another controller, without a unit number or with a unit outside the ten
  from the offset is passed over.\<close>

fun mark_units :: "int32 \<Rightarrow> VirtualDevice list \<Rightarrow> bool list \<Rightarrow> bool list" where
  "mark_units ckey [] units = units"
| "mark_units ckey (d # ds) units =
     (if ControllerKey d \<noteq> ckey then mark_units ckey ds units
      else case UnitNumber d of
        None \<Rightarrow> mark_units ckey ds units
      | Some u \<Rightarrow>
          if u <s pciDeviceOffset \<or> pciDeviceOffset + 10 \<le>s u
          then mark_units ckey ds units
          else mark_units ckey ds (units[nat (sint (u - pciDeviceOffset)) := True]))"

text \<open>The second loop: newUnit starts at -1 and takes the first index not in
  use, counted from the offset.\<close>

fun first_unused :: "bool list \<Rightarrow> nat \<Rightarrow> int32" where
  "first_unused [] unit = - 1"
| "first_unused (used # rest) unit =
     (if \<not> used then word_of_nat unit + pciDeviceOffset
      else first_unused rest (Suc unit))"

definition assignEthernetCard :: "store \<Rightarrow> addr list \<Rightarrow> addr \<Rightarrow> addr \<Rightarrow> store \<times> error option" where
  "assignEthernetCard h l device c =
     (let units = replicate 10 False;
          ckey = Key (h c);
          units = mark_units ckey (map h l) units;
          newUnit = first_unused units 0
      in if newUnit <s 0 then (h, Some NoMoreSlots)
         else (h(device := (h device)
                 \<lparr> ControllerKey := Key (h c),
                   UnitNumber := Some newUnit,
                   Key := (if Key (h device) = 0 then - 1 else Key (h device)) \<rparr>), None))"

section \<open>Conversions between the two device interfaces\<close>

text \<open>
  Both interfaces box the same pointer, so a value of either is a device
  record with its dynamic type. The first conversion panics outside the six
  card types, the second returns an error there.
\<close>

definition baseVirtualEthernetCardToBaseVirtualDevice :: "VirtualDevice \<Rightarrow> error + VirtualDevice" where
  "baseVirtualEthernetCardToBaseVirtualDevice v =
     (case DynType v of
        VirtualE1000 \<Rightarrow> Inr v
      | VirtualE1000e \<Rightarrow> Inr v
      | VirtualPCNet32 \<Rightarrow> Inr v
      | VirtualSriovEthernetCard \<Rightarrow> Inr v
      | VirtualVmxnet2 \<Rightarrow> Inr v
      | VirtualVmxnet3 \<Rightarrow> Inr v
      | _ \<Rightarrow> Inl (Panic ''unknown ethernet card type''))"

definition baseVirtualDeviceToBaseVirtualEthernetCard :: "VirtualDevice \<Rightarrow> error + VirtualDevice" where
  "baseVirtualDeviceToBaseVirtualEthernetCard v =
     (case DynType v of
        VirtualE1000 \<Rightarrow> Inr v
      | VirtualE1000e \<Rightarrow> Inr v
      | VirtualPCNet32 \<Rightarrow> Inr v
      | VirtualSriovEthernetCard \<Rightarrow> Inr v
      | VirtualVmxnet2 \<Rightarrow> Inr v
      | VirtualVmxnet3 \<Rightarrow> Inr v
      | t \<Rightarrow> Inl (NotNetworkDevice t))"

section \<open>The network interface sub-resource\<close>

definition networkInterfaceSubresourceTypeE1000 :: string where
  "networkInterfaceSubresourceTypeE1000 = ''e1000''"

definition networkInterfaceSubresourceTypeVmxnet3 :: string where
  "networkInterfaceSubresourceTypeVmxnet3 = ''vmxnet3''"

definition networkInterfaceSubresourceTypeUnknown :: string where
  "networkInterfaceSubresourceTypeUnknown = ''unknown''"

text \<open>The attribute names of networkInterfaceSubresourceSchema, in its order.\<close>

definition networkInterfaceSubresourceSchema :: "string list" where
  "networkInterfaceSubresourceSchema =
     [''bandwidth_limit'', ''bandwidth_reservation'', ''bandwidth_share_level'',
      ''bandwidth_share_count'', ''network_id'', ''adapter_type'', ''use_static_mac'',
      ''mac_address'', ''key'']"

text \<open>The three address types of VirtualEthernetCardMacType that Update and
  Read name.\<close>

definition VirtualEthernetCardMacTypeManual :: string where
  "VirtualEthernetCardMacTypeManual = ''manual''"

definition VirtualEthernetCardMacTypeGenerated :: string where
  "VirtualEthernetCardMacTypeGenerated = ''generated''"

definition VirtualEthernetCardMacTypeAssigned :: string where
  "VirtualEthernetCardMacTypeAssigned = ''assigned''"

text \<open>
  A value of the resource data. The sub-resource holds the attributes of
  its entry as they were in the prior state (olddata) and as they are
  declared now (data).
\<close>

datatype val = VString string | VInt int | VBool bool | VNil

record Subresource =
  index :: nat
  olddata :: "string \<rightharpoonup> val"
  data :: "string \<rightharpoonup> val"

text \<open>
  Modelled from the spec: the helpers of Subresource (Get, Set, HasChange,
  FindVirtualDevice) are not in the source files at hand. Get reads the
  declared attribute; the type assertion behind it panics on a value of
  another type. Set writes a computed attribute. HasChange compares the old
  and the new value of one attribute; an attribute that neither state holds
  has not changed. FindVirtualDevice locates the device record by the
  persisted key and fails with DeviceNotFound if the key is absent from the
  list.
\<close>

definition get_string :: "Subresource \<Rightarrow> string \<Rightarrow> error + string" where
  "get_string r k =
     (case data r k of Some (VString s) \<Rightarrow> Inr s | _ \<Rightarrow> Inl (Panic ''interface conversion''))"

definition get_int :: "Subresource \<Rightarrow> string \<Rightarrow> error + int" where
  "get_int r k =
     (case data r k of Some (VInt n) \<Rightarrow> Inr n | _ \<Rightarrow> Inl (Panic ''interface conversion''))"

definition get_bool :: "Subresource \<Rightarrow> string \<Rightarrow> error + bool" where
  "get_bool r k =
     (case data r k of Some (VBool b) \<Rightarrow> Inr b | _ \<Rightarrow> Inl (Panic ''interface conversion''))"

definition Set_attr :: "Subresource \<Rightarrow> string \<Rightarrow> val \<Rightarrow> Subresource" where
  "Set_attr r k v = r\<lparr>data := (data r)(k \<mapsto> v)\<rparr>"

definition HasChange :: "Subresource \<Rightarrow> string \<Rightarrow> bool" where
  "HasChange r k \<longleftrightarrow> olddata r k \<noteq> data r k"

definition FindVirtualDevice :: "Subresource \<Rightarrow> VirtualDevice list \<Rightarrow> error + VirtualDevice" where
  "FindVirtualDevice r l =
     (case data r ''key'' of
        Some (VInt k) \<Rightarrow>
          (case find (\<lambda>d. sint (Key d) = k) l of
             None \<Rightarrow> Inl DeviceNotFound
           | Some d \<Rightarrow> Inr d)
      | _ \<Rightarrow> Inl DeviceNotFound)"

text \<open>
  Modelled from the spec: NewKey of the device list (API library, not in the
  source files at hand) hands out the key of a device that is pending
  creation, and the spec has such a key negative (a negative key is pending
  creation, not yet assigned by the remote system; Create assigns a negative
  placeholder key). The function is a parameter of the model, taken from the
  functions all of whose results are negative.
\<close>

typedef new_key = "{f :: VirtualDevice list \<Rightarrow> int32. \<forall>l. f l <s 0}"
  morphisms key_for Abs_new_key
proof
  show "(\<lambda>l. - 1) \<in> {f :: VirtualDevice list \<Rightarrow> int32. \<forall>l. f l <s 0}"
    by simp
qed

text \<open>
  What the sub-resource reaches through its client and through the device
  list of the API library: the API type of the endpoint, the two network
  lookups of Read, and CreateEthernetCard and NewKey of the device list.
  They are parameters of the model.
\<close>

record client =
  ApiType :: string
  OpaqueNetworkFromNetworkID :: "string \<Rightarrow> error + ManagedObjectReference"
  DVPortgroupFromKey :: "string \<Rightarrow> string \<Rightarrow> error + ManagedObjectReference"
  CreateEthernetCard :: "VirtualDevice list \<Rightarrow> string \<Rightarrow> backing \<Rightarrow> error + VirtualDevice"
  NewKey :: new_key

text \<open>
  Modelled from the spec: a change spec is one add, edit or remove
  instruction carrying a full device record; ConfigSpec of the device list
  (API library) wraps each device of the list with the operation.
\<close>

datatype ConfigSpecOperation = OperationAdd | OperationEdit | OperationRemove

record VirtualDeviceConfigSpec =
  Operation :: ConfigSpecOperation
  Device :: VirtualDevice

definition ConfigSpec :: "VirtualDevice list \<Rightarrow> ConfigSpecOperation \<Rightarrow> error + VirtualDeviceConfigSpec list" where
  "ConfigSpec l op = Inr (map (\<lambda>d. \<lparr>Operation = op, Device = d\<rparr>) l)"

text \<open>The type assertion to BaseVirtualEthernetCard holds for the six card
  types and for the base struct.\<close>

definition implements_ethernet_card :: "device_type \<Rightarrow> bool" where
  "implements_ethernet_card t = (case t of OtherDevice _ \<Rightarrow> False | _ \<Rightarrow> True)"

subsection \<open>Read\<close>

text \<open>The switch on the backing of the card (the network of Read).\<close>

definition read_network_id :: "client \<Rightarrow> backing \<Rightarrow> error + string" where
  "read_network_id cl b =
     (case b of
        NetworkBackingInfo network \<Rightarrow>
          (case network of
             None \<Rightarrow> Inl NoNetworkInformation
           | Some n \<Rightarrow> Inr (Value n))
      | OpaqueNetworkBackingInfo opaqueNetworkId \<Rightarrow>
          (case OpaqueNetworkFromNetworkID cl opaqueNetworkId of
             Inl e \<Rightarrow> Inl e
           | Inr onet \<Rightarrow> Inr (Value onet))
      | DistributedVirtualPortBackingInfo port \<Rightarrow>
          (case DVPortgroupFromKey cl (SwitchUuid port) (PortgroupKey port) of
             Inl e \<Rightarrow> Inl e
           | Inr pg \<Rightarrow> Inr (Value pg))
      | _ \<Rightarrow> Inl (UnknownBacking b))"

definition read_adapter_type :: "device_type \<Rightarrow> string" where
  "read_adapter_type t =
     (case t of
        VirtualVmxnet3 \<Rightarrow> networkInterfaceSubresourceTypeVmxnet3
      | VirtualE1000 \<Rightarrow> networkInterfaceSubresourceTypeE1000
      | _ \<Rightarrow> networkInterfaceSubresourceTypeUnknown)"

definition val_of_int64_ptr :: "int64 option \<Rightarrow> val" where
  "val_of_int64_ptr p = (case p of None \<Rightarrow> VNil | Some x \<Rightarrow> VInt (sint x))"

text \<open>Read returns the sub-resource as the Set calls left it, with the error.\<close>

definition Read :: "client \<Rightarrow> Subresource \<Rightarrow> VirtualDevice list \<Rightarrow> Subresource \<times> error option" where
  "Read cl r l =
     (case FindVirtualDevice r l of
        Inl e \<Rightarrow> (r, Some (CannotFindNetworkDevice e))
      | Inr vd \<Rightarrow>
     (case baseVirtualDeviceToBaseVirtualEthernetCard vd of
        Inl e \<Rightarrow> (r, Some e)
      | Inr ecard \<Rightarrow>
     (let r = Set_attr r ''adapter_type'' (VString (read_adapter_type (DynType ecard)))
      in case read_network_id cl (Backing ecard) of
        Inl e \<Rightarrow> (r, Some e)
      | Inr netID \<Rightarrow>
     (let r = Set_attr r ''network_id'' (VString netID);
          r = Set_attr r ''use_static_mac''
                (VBool (AddressType ecard = VirtualEthernetCardMacTypeManual));
          r = Set_attr r ''mac_address'' (VString (MacAddress ecard));
          r = (case ResourceAllocation ecard of
                 None \<Rightarrow> r
               | Some a \<Rightarrow>
                   (let r = Set_attr r ''bandwidth_limit'' (val_of_int64_ptr (Limit a));
                        r = Set_attr r ''bandwidth_reservation'' (val_of_int64_ptr (Reservation a));
                        r = Set_attr r ''bandwidth_share_count'' (VInt (sint (Shares (Share a))))
                    in Set_attr r ''bandwidth_share_level'' (VString (Level (Share a)))));
          r = Set_attr r ''key'' (VInt (sint (Key ecard)))
      in (r, None)))))"

subsection \<open>Update\<close>

text \<open>
  Update returns its change specs, each with the device record as the
  function left it. The branch under HasChange: a new card of the declared
  adapter type takes the controller key and the unit number of the old one
  and a new key, and a remove spec of the old device is pushed.
\<close>

definition replace_device ::
  "client \<Rightarrow> Subresource \<Rightarrow> VirtualDevice list \<Rightarrow> VirtualDevice
     \<Rightarrow> error + (VirtualDeviceConfigSpec list \<times> VirtualDevice)" where
  "replace_device cl r l device =
     (let ecard = device in
      case get_string r ''adapter_type'' of Inl e \<Rightarrow> Inl e | Inr adapter \<Rightarrow>
      case CreateEthernetCard cl l adapter (Backing ecard) of Inl e \<Rightarrow> Inl e | Inr newDevice \<Rightarrow>
      if \<not> implements_ethernet_card (DynType newDevice) then Inl (Panic ''interface conversion'')
      else
        let newCard = newDevice\<lparr>ControllerKey := ControllerKey ecard\<rparr>;
            newCard = (case UnitNumber ecard of
                         None \<Rightarrow> newCard
                       | Some un \<Rightarrow> newCard\<lparr>UnitNumber := Some un\<rparr>);
            newCard = newCard\<lparr>Key := key_for (NewKey cl) l\<rparr>
        in
        case baseVirtualEthernetCardToBaseVirtualDevice device of Inl e \<Rightarrow> Inl e | Inr bvd \<Rightarrow>
        case ConfigSpec [bvd] OperationRemove of Inl e \<Rightarrow> Inl e | Inr dspec \<Rightarrow>
        case baseVirtualDeviceToBaseVirtualEthernetCard newCard of Inl e \<Rightarrow> Inl e
        | Inr device' \<Rightarrow> Inr ([] @ dspec, device'))"

definition update_mac :: "client \<Rightarrow> Subresource \<Rightarrow> VirtualDevice \<Rightarrow> error + VirtualDevice" where
  "update_mac cl r ecard =
     (if HasChange r ''use_static_mac'' then
        case get_bool r ''use_static_mac'' of Inl e \<Rightarrow> Inl e | Inr static \<Rightarrow>
        if static then
          case get_string r ''mac_address'' of Inl e \<Rightarrow> Inl e
          | Inr mac \<Rightarrow> Inr (ecard\<lparr>AddressType := VirtualEthernetCardMacTypeManual, MacAddress := mac\<rparr>)
        else
          Inr (ecard\<lparr>AddressType :=
                      (if ApiType cl \<noteq> ''VirtualCenter'' then VirtualEthernetCardMacTypeGenerated
                       else VirtualEthernetCardMacTypeAssigned),
                    MacAddress := []\<rparr>)
      else Inr ecard)"

definition update_alloc :: "Subresource \<Rightarrow> error + VirtualEthernetCardResourceAllocation" where
  "update_alloc r =
     (case get_int r ''bandwidth_limit'' of Inl e \<Rightarrow> Inl e | Inr limit \<Rightarrow>
      case get_int r ''bandwidth_reservation'' of Inl e \<Rightarrow> Inl e | Inr reservation \<Rightarrow>
      case get_int r ''bandwidth_share_count'' of Inl e \<Rightarrow> Inl e | Inr count \<Rightarrow>
      case get_string r ''bandwidth_share_level'' of Inl e \<Rightarrow> Inl e | Inr level \<Rightarrow>
      Inr \<lparr> Reservation = Some (word_of_int reservation),
            Share = \<lparr> Shares = word_of_int count, Level = level \<rparr>,
            Limit = Some (word_of_int limit) \<rparr>)"

definition Update :: "client \<Rightarrow> Subresource \<Rightarrow> VirtualDevice list \<Rightarrow> error + VirtualDeviceConfigSpec list" where
  "Update cl r l =
     (case FindVirtualDevice r l of Inl e \<Rightarrow> Inl (CannotFindNetworkDevice e) | Inr vd \<Rightarrow>
      case baseVirtualDeviceToBaseVirtualEthernetCard vd of Inl e \<Rightarrow> Inl e | Inr device \<Rightarrow>
      case (if HasChange r ''device_type'' then replace_device cl r l device
            else Inr ([], device)) of Inl e \<Rightarrow> Inl e | Inr (spec, device) \<Rightarrow>
      case update_mac cl r device of Inl e \<Rightarrow> Inl e | Inr ecard \<Rightarrow>
      case update_alloc r of Inl e \<Rightarrow> Inl e | Inr alloc \<Rightarrow>
        let ecard = ecard\<lparr>ResourceAllocation := Some alloc\<rparr>;
            op = (if Key ecard <s 0 then OperationAdd else OperationEdit)
        in
        case baseVirtualEthernetCardToBaseVirtualDevice ecard of Inl e \<Rightarrow> Inl e | Inr bvd \<Rightarrow>
        case ConfigSpec [bvd] op of Inl e \<Rightarrow> Inl e | Inr uspec \<Rightarrow>
        Inr (spec @ uspec))"

section \<open>The clone workflow\<close>

datatype VirtualMachinePowerState =
    VirtualMachinePowerStatePoweredOff
  | VirtualMachinePowerStatePoweredOn
  | VirtualMachinePowerStateSuspended

datatype VirtualMachineSnapshotTree =
  VirtualMachineSnapshotTree
    (Tree_Snapshot: ManagedObjectReference)
    (ChildSnapshotList: "VirtualMachineSnapshotTree list")

text \<open>CurrentSnapshot is a pointer to a reference; the root list is a slice.\<close>

record VirtualMachineSnapshotInfo =
  CurrentSnapshot :: "ManagedObjectReference option"
  RootSnapshotList :: "VirtualMachineSnapshotTree list"

text \<open>The configuration of the source that the workflow reads: Uuid and
  Hardware.Device.\<close>

record VirtualMachineConfigInfo =
  Uuid :: string
  Hardware_Device :: "VirtualDevice list"

text \<open>The properties of the source virtual machine that the workflow reads:
  Runtime.PowerState, and the two pointers Snapshot and Config, each of which
  may be nil.\<close>

record VirtualMachine =
  Runtime_PowerState :: VirtualMachinePowerState
  Snapshot :: "VirtualMachineSnapshotInfo option"
  Config :: "VirtualMachineConfigInfo option"

text \<open>The errors of the workflow, by the message the source builds.\<close>

datatype clone_error =
    CannotLocateVirtualMachine string string
  | ErrorFetchingProperties string
  | MustBePoweredOff string
  | MustHaveSnapshot string
  | MustHaveExactlyOneRootSnapshot string nat
  | RootSnapshotMustNotHaveChildren string
  | CurrentSnapshotMustMatchRoot string
  | ErrorLocatingDatastore string
  | DiskOperationError string
  | NilPointerDereference

text \<open>
  Each error of validateCloneSnapshots is built from props.Config.Uuid: with
  a nil Config the read of the Uuid panics and no error is returned.
\<close>

definition error_of_uuid :: "VirtualMachine \<Rightarrow> (string \<Rightarrow> clone_error) \<Rightarrow> clone_error" where
  "error_of_uuid props message =
     (case Config props of
        None \<Rightarrow> NilPointerDereference
      | Some config \<Rightarrow> message (Uuid config))"

definition validateCloneSnapshots :: "VirtualMachine \<Rightarrow> clone_error option" where
  "validateCloneSnapshots props =
     (case Snapshot props of
        None \<Rightarrow> Some (error_of_uuid props MustHaveSnapshot)
      | Some snapshot \<Rightarrow>
          if length (RootSnapshotList snapshot) \<noteq> 1
          then Some (error_of_uuid props
                       (\<lambda>uuid. MustHaveExactlyOneRootSnapshot uuid
                                 (length (RootSnapshotList snapshot))))
          else if length (ChildSnapshotList (RootSnapshotList snapshot ! 0)) > 0
          then Some (error_of_uuid props RootSnapshotMustNotHaveChildren)
          else
            (case CurrentSnapshot snapshot of
               None \<Rightarrow> Some NilPointerDereference
             | Some current \<Rightarrow>
                 if Value current \<noteq> Value (Tree_Snapshot (RootSnapshotList snapshot ! 0))
                 then Some (error_of_uuid props CurrentSnapshotMustMatchRoot)
                 else None))"

text \<open>
  The resource data of the clone: the attributes that the two functions
  read, each of the type its schema gives it.
\<close>

record clone_data =
  template_uuid :: string
  linked_clone :: bool
  datastore_id :: string

text \<open>
  The collaborators of the workflow are parameters: the lookup of the source
  by UUID and of its properties, the lookup of the datastore, and the two
  disk operations of the virtual device package, which are not in the source
  files at hand. A lookup returns the message of its error.
\<close>

record 'reloc workflow_client =
  FromUUID :: "string \<Rightarrow> string + ManagedObjectReference"
  Properties :: "ManagedObjectReference \<Rightarrow> string + VirtualMachine"
  DatastoreFromID :: "string \<Rightarrow> string + ManagedObjectReference"
  DiskCloneValidateOperation :: "clone_data \<Rightarrow> VirtualDevice list \<Rightarrow> string option"
  DiskCloneRelocateOperation :: "clone_data \<Rightarrow> VirtualDevice list \<Rightarrow> string + 'reloc list"

definition ValidateVirtualMachineClone :: "'reloc workflow_client \<Rightarrow> clone_data \<Rightarrow> clone_error option" where
  "ValidateVirtualMachineClone c d =
     (let tUUID = template_uuid d in
      case FromUUID c tUUID of Inl err \<Rightarrow> Some (CannotLocateVirtualMachine tUUID err) | Inr vm \<Rightarrow>
      case Properties c vm of Inl err \<Rightarrow> Some (ErrorFetchingProperties err) | Inr vprops \<Rightarrow>
      if Runtime_PowerState vprops \<noteq> VirtualMachinePowerStatePoweredOff
      then Some (MustBePoweredOff tUUID)
      else
        case (if linked_clone d then validateCloneSnapshots vprops else None) of
          Some err \<Rightarrow> Some err
        | None \<Rightarrow>
            (case Config vprops of
               None \<Rightarrow> Some NilPointerDereference
             | Some config \<Rightarrow>
                 (case DiskCloneValidateOperation c d (Hardware_Device config) of
                    Some err \<Rightarrow> Some (DiskOperationError err)
                  | None \<Rightarrow> None)))"

record 'reloc VirtualMachineRelocateSpec =
  Datastore :: "ManagedObjectReference option"
  DiskMoveType :: string
  Disk :: "'reloc list"

record 'reloc VirtualMachineCloneSpec =
  Location :: "'reloc VirtualMachineRelocateSpec"
  Spec_Snapshot :: "ManagedObjectReference option"

definition VirtualMachineRelocateDiskMoveOptionsCreateNewChildDiskBacking :: string where
  "VirtualMachineRelocateDiskMoveOptionsCreateNewChildDiskBacking = ''createNewChildDiskBacking''"

text \<open>The zero value of the clone spec, as the var declaration leaves it.\<close>

definition zero_spec :: "'reloc VirtualMachineCloneSpec" where
  "zero_spec = \<lparr> Location = \<lparr> Datastore = None, DiskMoveType = [], Disk = [] \<rparr>,
                 Spec_Snapshot = None \<rparr>"

text \<open>
  ExpandVirtualMachineCloneSpec returns the spec as built so far together
  with the error. The reads through vprops.Snapshot, through its
  CurrentSnapshot (for the log line of the snapshot) and through
  vprops.Config panic on a nil pointer; the panic is the result
  NilPointerDereference.
\<close>

definition ExpandVirtualMachineCloneSpec ::
  "'reloc workflow_client \<Rightarrow> clone_data \<Rightarrow> 'reloc VirtualMachineCloneSpec \<times> clone_error option" where
  "ExpandVirtualMachineCloneSpec c d =
     (let spec = zero_spec in
      case DatastoreFromID c (datastore_id d) of
        Inl err \<Rightarrow> (spec, Some (ErrorLocatingDatastore err))
      | Inr dsRef \<Rightarrow>
     (let spec = spec\<lparr>Location := (Location spec)\<lparr>Datastore := Some dsRef\<rparr>\<rparr>;
          tUUID = template_uuid d
      in case FromUUID c tUUID of
        Inl err \<Rightarrow> (spec, Some (CannotLocateVirtualMachine tUUID err))
      | Inr vm \<Rightarrow>
     (case Properties c vm of
        Inl err \<Rightarrow> (spec, Some (ErrorFetchingProperties err))
      | Inr vprops \<Rightarrow>
     (case (if linked_clone d
            then (case validateCloneSnapshots vprops of
                    Some err \<Rightarrow> Inl err
                  | None \<Rightarrow>
                      (case Snapshot vprops of
                         None \<Rightarrow> Inl NilPointerDereference
                       | Some snapshot \<Rightarrow>
                           (let spec = spec\<lparr> Spec_Snapshot := CurrentSnapshot snapshot,
                                      Location := (Location spec)
                                        \<lparr>DiskMoveType :=
                                           VirtualMachineRelocateDiskMoveOptionsCreateNewChildDiskBacking\<rparr> \<rparr>
                            in case CurrentSnapshot snapshot of
                                 None \<Rightarrow> Inl NilPointerDereference
                               | Some current \<Rightarrow> Inr spec)))
            else Inr spec) of
        Inl err \<Rightarrow> (spec, Some err)
      | Inr spec \<Rightarrow>
     (case Config vprops of
        None \<Rightarrow> (spec, Some NilPointerDereference)
      | Some config \<Rightarrow>
     (case DiskCloneRelocateOperation c d (Hardware_Device config) of
        Inl err \<Rightarrow> (spec, Some (DiskOperationError err))
      | Inr relocators \<Rightarrow>
          (spec\<lparr>Location := (Location spec)\<lparr>Disk := relocators\<rparr>\<rparr>, None)))))))"

section \<open>Predicates of the properties and example values\<close>

text \<open>The units that assignEthernetCard hands out: the ten from the offset.\<close>

definition in_pci_range :: "int32 \<Rightarrow> bool" where
  "in_pci_range u \<longleftrightarrow> pciDeviceOffset \<le>s u \<and> u <s pciDeviceOffset + 10"

definition on_unit :: "int32 \<Rightarrow> VirtualDevice \<Rightarrow> int32 \<Rightarrow> bool" where
  "on_unit ckey d u \<longleftrightarrow> ControllerKey d = ckey \<and> UnitNumber d = Some u"

text \<open>A unit is occupied on controller c when a device of the list has the
  key of c as its controller key and the unit as its unit number.\<close>

definition occupied :: "store \<Rightarrow> addr list \<Rightarrow> addr \<Rightarrow> int32 \<Rightarrow> bool" where
  "occupied h l c u \<longleftrightarrow> (\<exists>a\<in>set l. on_unit (Key (h c)) (h a) u)"

definition example_network :: ManagedObjectReference where
  "example_network = \<lparr> Type = ''Network'', Value = ''network-11'' \<rparr>"

definition example_controller :: VirtualDevice where
  "example_controller =
     \<lparr> DynType = OtherDevice ''*types.VirtualPCIController'', Key = 100, ControllerKey = 0,
       UnitNumber = None, Backing = NilBacking, AddressType = [], MacAddress = [],
       ResourceAllocation = None \<rparr>"

definition example_nic :: VirtualDevice where
  "example_nic =
     \<lparr> DynType = VirtualE1000, Key = 4000, ControllerKey = 100,
       UnitNumber = Some 7, Backing = NetworkBackingInfo (Some example_network),
       AddressType = ''assigned'', MacAddress = ''00:50:56:aa:bb:cc'',
       ResourceAllocation = None \<rparr>"

text \<open>A store with the controller at address 0, a card on its unit 7 at
  address 1 and a card that is not attached yet, with key 0, at address 2.\<close>

definition example_store :: store where
  "example_store =
     (\<lambda>_. example_controller)
       (1 := example_nic,
        2 := example_nic\<lparr> Key := 0, ControllerKey := 0, UnitNumber := None \<rparr>)"

text \<open>A store with ten cards on the units 7 to 16 of the controller, which is
  at address 10.\<close>

definition full_store :: store where
  "full_store =
     (\<lambda>a. if a = 10 then example_controller
          else example_nic\<lparr> UnitNumber := Some (word_of_nat a + 7) \<rparr>)"

text \<open>The six card types of the two type switches.\<close>

definition supported_ethernet_card :: "device_type \<Rightarrow> bool" where
  "supported_ethernet_card t \<longleftrightarrow>
     t \<in> set [VirtualE1000, VirtualE1000e, VirtualPCNet32, VirtualSriovEthernetCard,
              VirtualVmxnet2, VirtualVmxnet3]"

text \<open>A card to a device and back to a card.\<close>

definition round_trip :: "VirtualDevice \<Rightarrow> error + VirtualDevice" where
  "round_trip v =
     (case baseVirtualEthernetCardToBaseVirtualDevice v of
        Inl e \<Rightarrow> Inl e
      | Inr bvd \<Rightarrow> baseVirtualDeviceToBaseVirtualEthernetCard bvd)"

text \<open>Read succeeds and leaves x as the network id; Read fails with e and
  leaves the network id as it was.\<close>

definition stores_network :: "client \<Rightarrow> Subresource \<Rightarrow> VirtualDevice list \<Rightarrow> string \<Rightarrow> bool" where
  "stores_network cl r l x \<longleftrightarrow>
     snd (Read cl r l) = None \<and> data (fst (Read cl r l)) ''network_id'' = Some (VString x)"

definition fails_read :: "client \<Rightarrow> Subresource \<Rightarrow> VirtualDevice list \<Rightarrow> error \<Rightarrow> bool" where
  "fails_read cl r l e \<longleftrightarrow>
     snd (Read cl r l) = Some e \<and> data (fst (Read cl r l)) ''network_id'' = data r ''network_id''"

definition new_card :: "device_type \<Rightarrow> backing \<Rightarrow> VirtualDevice" where
  "new_card t b =
     \<lparr> DynType = t, Key = - 1, ControllerKey = 0, UnitNumber = None, Backing = b,
       AddressType = [], MacAddress = [], ResourceAllocation = None \<rparr>"

text \<open>New keys that are -200 for every list.\<close>

definition example_new_key :: new_key where
  "example_new_key = Abs_new_key (\<lambda>l. - 200)"

text \<open>An example client: one opaque network and one port group are known,
  cards of the two declared adapter types can be created, and new keys are
  -200.\<close>

definition example_client :: client where
  "example_client =
     \<lparr> ApiType = ''VirtualCenter'',
       OpaqueNetworkFromNetworkID =
         (\<lambda>i. if i = ''nsx-1'' then Inr \<lparr> Type = ''OpaqueNetwork'', Value = ''network-o21'' \<rparr>
              else Inl (External ''opaque network not found'')),
       DVPortgroupFromKey =
         (\<lambda>u k. if k = ''dvportgroup-31''
                then Inr \<lparr> Type = ''DistributedVirtualPortgroup'', Value = ''dvportgroup-31'' \<rparr>
                else Inl (External ''portgroup not found'')),
       CreateEthernetCard =
         (\<lambda>l name b. if name = ''e1000'' then Inr (new_card VirtualE1000 b)
                      else if name = ''vmxnet3'' then Inr (new_card VirtualVmxnet3 b)
                      else Inl (External ''unknown ethernet card type'')),
       NewKey = example_new_key \<rparr>"

text \<open>The attributes of one declared network interface, all of the schema.\<close>

definition example_data :: "string \<rightharpoonup> val" where
  "example_data =
     map_of
       [(''bandwidth_limit'', VInt (- 1)),
        (''bandwidth_reservation'', VInt 0),
        (''bandwidth_share_level'', VString ''normal''),
        (''bandwidth_share_count'', VInt 0),
        (''network_id'', VString ''network-11''),
        (''adapter_type'', VString ''e1000''),
        (''use_static_mac'', VBool False),
        (''mac_address'', VString ''00:50:56:aa:bb:cc''),
        (''key'', VInt 4000)]"

text \<open>The entry of example_nic, its adapter type changed from e1000 to
  vmxnet3.\<close>

definition example_subresource :: Subresource where
  "example_subresource =
     \<lparr> index = 0, olddata = example_data,
       data = example_data(''adapter_type'' \<mapsto> VString ''vmxnet3'') \<rparr>"

text \<open>The declared data holds each attribute that Update reads with the type
  its schema gives it; schema_typed adds that it holds no attribute outside
  the schema.\<close>

definition is_string :: "(string \<rightharpoonup> val) \<Rightarrow> string \<Rightarrow> bool" where
  "is_string m k = (case m k of Some (VString s) \<Rightarrow> True | _ \<Rightarrow> False)"

definition is_int :: "(string \<rightharpoonup> val) \<Rightarrow> string \<Rightarrow> bool" where
  "is_int m k = (case m k of Some (VInt n) \<Rightarrow> True | _ \<Rightarrow> False)"

definition is_bool :: "(string \<rightharpoonup> val) \<Rightarrow> string \<Rightarrow> bool" where
  "is_bool m k = (case m k of Some (VBool b) \<Rightarrow> True | _ \<Rightarrow> False)"

definition attributes_typed :: "(string \<rightharpoonup> val) \<Rightarrow> bool" where
  "attributes_typed m \<longleftrightarrow>
     is_int m ''bandwidth_limit'' \<and> is_int m ''bandwidth_reservation'' \<and>
     is_string m ''bandwidth_share_level'' \<and> is_int m ''bandwidth_share_count'' \<and>
     is_string m ''adapter_type'' \<and> is_bool m ''use_static_mac'' \<and>
     is_string m ''mac_address''"

definition schema_typed :: "(string \<rightharpoonup> val) \<Rightarrow> bool" where
  "schema_typed m \<longleftrightarrow> dom m \<subseteq> set networkInterfaceSubresourceSchema \<and> attributes_typed m"

text \<open>The resource allocation that Update builds from example_data.\<close>

definition example_alloc :: VirtualEthernetCardResourceAllocation where
  "example_alloc =
     \<lparr> Reservation = Some 0, Share = \<lparr> Shares = 0, Level = ''normal'' \<rparr>, Limit = Some (- 1) \<rparr>"

text \<open>An entry whose data holds a device_type attribute that has changed,
  which no data of the schema does.\<close>

definition device_type_subresource :: Subresource where
  "device_type_subresource =
     \<lparr> index = 0, olddata = example_data(''device_type'' \<mapsto> VString ''e1000''),
       data = example_data(''device_type'' \<mapsto> VString ''vmxnet3'',
                           ''adapter_type'' \<mapsto> VString ''vmxnet3'') \<rparr>"

text \<open>An entry whose device is pending creation: its key is negative.\<close>

definition pending_subresource :: Subresource where
  "pending_subresource =
     \<lparr> index = 0, olddata = example_data(''key'' \<mapsto> VInt (- 5)),
       data = example_data(''key'' \<mapsto> VInt (- 5), ''use_static_mac'' \<mapsto> VBool True) \<rparr>"

text \<open>An example source: powered on, with one root snapshot without children
  that is the current snapshot.\<close>

definition example_snapshot :: ManagedObjectReference where
  "example_snapshot = \<lparr> Type = ''VirtualMachineSnapshot'', Value = ''snapshot-41'' \<rparr>"

definition example_vm :: VirtualMachine where
  "example_vm =
     \<lparr> Runtime_PowerState = VirtualMachinePowerStatePoweredOn,
       Snapshot = Some \<lparr> CurrentSnapshot = Some example_snapshot,
                         RootSnapshotList = [VirtualMachineSnapshotTree example_snapshot []] \<rparr>,
       Config = Some \<lparr> Uuid = ''4211-aa'',
                       Hardware_Device = [example_controller, example_nic] \<rparr> \<rparr>"

text \<open>The same source with no current snapshot: the working state is at the
  root of the snapshot tree.\<close>

definition no_current_vm :: VirtualMachine where
  "no_current_vm =
     example_vm
       \<lparr> Runtime_PowerState := VirtualMachinePowerStatePoweredOff,
         Snapshot := Some \<lparr> CurrentSnapshot = None,
                            RootSnapshotList = [VirtualMachineSnapshotTree example_snapshot []] \<rparr> \<rparr>"

definition example_workflow_client :: "VirtualMachine \<Rightarrow> nat workflow_client" where
  "example_workflow_client vprops =
     \<lparr> FromUUID = (\<lambda>u. if u = ''4211-aa'' then Inr \<lparr> Type = ''VirtualMachine'', Value = ''vm-7'' \<rparr>
                        else Inl ''not found''),
       Properties = (\<lambda>vm. Inr vprops),
       DatastoreFromID = (\<lambda>i. Inr \<lparr> Type = ''Datastore'', Value = i \<rparr>),
       DiskCloneValidateOperation = (\<lambda>d l. None),
       DiskCloneRelocateOperation = (\<lambda>d l. Inr [0]) \<rparr>"

definition example_clone :: clone_data where
  "example_clone =
     \<lparr> template_uuid = ''4211-aa'', linked_clone = True, datastore_id = ''datastore-5'' \<rparr>"

text \<open>The client with the power state of every source replaced.\<close>

definition with_power_state ::
  "VirtualMachinePowerState \<Rightarrow> 'reloc workflow_client \<Rightarrow> 'reloc workflow_client" where
  "with_power_state s c =
     c\<lparr> Properties :=
          (\<lambda>vm. case Properties c vm of
                  Inl err \<Rightarrow> Inl err
                | Inr vprops \<Rightarrow> Inr (vprops\<lparr>Runtime_PowerState := s\<rparr>)) \<rparr>"

section \<open>The slot allocator\<close>

lemma sint_slot: "n < 10 \<Longrightarrow> sint (word_of_nat n + 7 :: int32) = int n + 7"
proof -
  assume n: "n < 10"
  have "(word_of_nat n + 7 :: int32) = word_of_nat (n + 7)" by simp
  then have "sint (word_of_nat n + 7 :: int32) = signed_take_bit 31 (int (n + 7))"
    by (simp only: signed_of_nat) simp
  also have "\<dots> = int (n + 7)"
    using n by (intro signed_take_bit_int_eq_self) simp_all
  finally show ?thesis by simp
qed

lemma in_pci_range_sint: "in_pci_range u \<longleftrightarrow> 7 \<le> sint u \<and> sint u < 17"
  by (simp add: in_pci_range_def pciDeviceOffset_def word_sle_eq word_sless_alt)

lemma slot_of_range:
  assumes "in_pci_range u"
  shows "nat (sint (u - pciDeviceOffset)) < 10 \<and>
         u = word_of_nat (nat (sint (u - pciDeviceOffset))) + 7"
proof -
  from assms have b: "7 \<le> sint u" "sint u < 17" by (simp_all add: in_pci_range_sint)
  have "sint (u - 7) = sint u - 7"
    using b by (simp add: sint_word_ariths signed_take_bit_int_eq_self)
  then show ?thesis using b unfolding pciDeviceOffset_def by simp
qed

lemma range_of_slot: "n < 10 \<Longrightarrow> in_pci_range (word_of_nat n + 7)"
  using sint_slot[of n] by (simp add: in_pci_range_sint)

lemma slot_index: "n < 10 \<Longrightarrow> nat (sint ((word_of_nat n + 7 :: int32) - pciDeviceOffset)) = n"
  using sint_slot[of n]
  by (simp add: pciDeviceOffset_def signed_of_nat signed_take_bit_int_eq_self)

lemma slot_not_negative: "n < 10 \<Longrightarrow> \<not> (word_of_nat n + pciDeviceOffset :: int32) <s 0"
  using sint_slot[of n] by (simp add: word_sless_alt pciDeviceOffset_def)

lemma slot_less:
  "i < 10 \<Longrightarrow> j < 10 \<Longrightarrow> (word_of_nat i + 7 :: int32) <s word_of_nat j + 7 \<longleftrightarrow> i < j"
  using sint_slot[of i] sint_slot[of j] by (simp add: word_sless_alt)

lemma length_mark_units [simp]: "length (mark_units ckey ds us) = length us"
  by (induction ds arbitrary: us) (auto split: option.splits)

text \<open>The first loop marks exactly the units that a device of the list holds
  on the controller.\<close>

lemma mark_units_nth:
  "length us = 10 \<Longrightarrow> i < 10 \<Longrightarrow>
   mark_units ckey ds us ! i \<longleftrightarrow> us ! i \<or> (\<exists>d\<in>set ds. on_unit ckey d (word_of_nat i + 7))"
proof (induction ds arbitrary: us)
  case Nil
  then show ?case by simp
next
  case (Cons d ds)
  show ?case
  proof (cases "UnitNumber d")
    case None
    then show ?thesis using Cons by (auto simp: on_unit_def)
  next
    case (Some u)
    show ?thesis
    proof (cases "ControllerKey d \<noteq> ckey \<or> u <s pciDeviceOffset \<or> pciDeviceOffset + 10 \<le>s u")
      case True
      then have "\<not> on_unit ckey d (word_of_nat i + 7)"
        using Some range_of_slot[OF Cons.prems(2)]
        by (auto simp: on_unit_def in_pci_range_def signed.not_less)
      then show ?thesis using True Some Cons by auto
    next
      case False
      then have r: "in_pci_range u" and ck: "ControllerKey d = ckey"
        by (auto simp: in_pci_range_def signed.not_less)
      let ?j = "nat (sint (u - pciDeviceOffset))"
      from slot_of_range[OF r] have j: "?j < 10" "u = word_of_nat ?j + 7" by simp_all
      have eq: "on_unit ckey d (word_of_nat i + 7) \<longleftrightarrow> i = ?j"
        using Some ck j slot_index[OF Cons.prems(2)] by (auto simp: on_unit_def)
      have "mark_units ckey (d # ds) us ! i = mark_units ckey ds (us[?j := True]) ! i"
        using False Some by simp
      also have "\<dots> \<longleftrightarrow> (us[?j := True]) ! i \<or> (\<exists>d\<in>set ds. on_unit ckey d (word_of_nat i + 7))"
        using Cons.IH[of "us[?j := True]"] Cons.prems by simp
      also have "\<dots> \<longleftrightarrow> us ! i \<or> (\<exists>d\<in>set (d # ds). on_unit ckey d (word_of_nat i + 7))"
        using eq Cons.prems j by (auto simp: nth_list_update)
      finally show ?thesis .
    qed
  qed
qed

lemma marked_iff_occupied:
  "i < 10 \<Longrightarrow>
   mark_units (Key (h c)) (map h l) (replicate 10 False) ! i \<longleftrightarrow> occupied h l c (word_of_nat i + 7)"
  by (simp add: mark_units_nth occupied_def)

lemma first_unused_all: "\<forall>i<length us. us ! i \<Longrightarrow> first_unused us k = - 1"
proof (induction us arbitrary: k)
  case Nil
  then show ?case by simp
next
  case (Cons b us)
  from Cons.prems have "b" by (auto dest: spec[of _ 0])
  moreover from Cons.prems have "\<forall>i<length us. us ! i" by (auto dest: spec[of _ "Suc _"])
  ultimately show ?case using Cons.IH by simp
qed

lemma first_unused_least:
  "j < length us \<Longrightarrow> \<not> us ! j \<Longrightarrow> \<forall>i<j. us ! i \<Longrightarrow>
   first_unused us k = word_of_nat (k + j) + pciDeviceOffset"
proof (induction us arbitrary: k j)
  case Nil
  then show ?case by simp
next
  case (Cons b us)
  show ?case
  proof (cases j)
    case 0
    then show ?thesis using Cons.prems by simp
  next
    case (Suc j')
    from Cons.prems Suc have b: "b" by (auto dest: spec[of _ 0])
    have "\<forall>i<j'. us ! i"
    proof (intro allI impI)
      fix i assume "i < j'"
      then have "Suc i < j" using Suc by simp
      with Cons.prems(3) have "(b # us) ! Suc i" by blast
      then show "us ! i" by simp
    qed
    with Cons.IH[of j' "Suc k"] Cons.prems Suc b show ?thesis by simp
  qed
qed

lemma assign_full:
  assumes "\<forall>u. in_pci_range u \<longrightarrow> occupied h l c u"
  shows "assignEthernetCard h l d c = (h, Some NoMoreSlots)"
proof -
  let ?us = "mark_units (Key (h c)) (map h l) (replicate 10 False)"
  have "\<forall>i<length ?us. ?us ! i"
    using assms by (simp add: marked_iff_occupied range_of_slot)
  then have "first_unused ?us 0 = - 1" by (rule first_unused_all)
  then show ?thesis by (simp add: assignEthernetCard_def)
qed

lemma assign_free:
  assumes j: "j < 10" and free: "\<not> occupied h l c (word_of_nat j + 7)"
    and least: "\<forall>i<j. occupied h l c (word_of_nat i + 7)"
  shows "assignEthernetCard h l d c =
     (h(d := (h d)\<lparr> ControllerKey := Key (h c), UnitNumber := Some (word_of_nat j + 7),
                       Key := (if Key (h d) = 0 then - 1 else Key (h d)) \<rparr>), None)"
proof -
  let ?us = "mark_units (Key (h c)) (map h l) (replicate 10 False)"
  have "first_unused ?us 0 = word_of_nat (0 + j) + pciDeviceOffset"
  proof (rule first_unused_least)
    show "j < length ?us" using j by simp
    show "\<not> ?us ! j" using j free by (simp add: marked_iff_occupied)
    show "\<forall>i<j. ?us ! i" using j least by (simp add: marked_iff_occupied)
  qed
  then have f: "first_unused ?us 0 = word_of_nat j + pciDeviceOffset" by simp
  show ?thesis
    unfolding assignEthernetCard_def Let_def f
    using slot_not_negative[OF j] by (simp add: pciDeviceOffset_def)
qed

lemma least_free_slot:
  assumes "\<not> (\<forall>u. in_pci_range u \<longrightarrow> occupied h l c u)"
  obtains j where "j < 10" "\<not> occupied h l c (word_of_nat j + 7)"
    "\<forall>i<j. occupied h l c (word_of_nat i + 7)"
proof -
  from assms obtain u where u: "in_pci_range u" "\<not> occupied h l c u" by blast
  let ?P = "\<lambda>n. n < 10 \<and> \<not> occupied h l c (word_of_nat n + 7)"
  from slot_of_range[OF u(1)] u(2) have "\<exists>n. ?P n" by metis
  then have P: "?P (LEAST n. ?P n)" by (rule LeastI_ex)
  have "\<forall>i<(LEAST n. ?P n). occupied h l c (word_of_nat i + 7)"
  proof (intro allI impI)
    fix i assume i: "i < (LEAST n. ?P n)"
    then have "\<not> ?P i" by (rule not_less_Least)
    moreover have "i < 10" using i P by simp
    ultimately show "occupied h l c (word_of_nat i + 7)" by simp
  qed
  with P that show thesis by blast
qed

text \<open>The outcome of the allocator in full: an error and the store as it
  was, or the device updated in the three fields.\<close>

lemma assign_cases:
  "assignEthernetCard h l d c = (h, Some NoMoreSlots) \<or>
   (\<exists>u. assignEthernetCard h l d c =
     (h(d := (h d)\<lparr> ControllerKey := Key (h c), UnitNumber := Some u,
                       Key := (if Key (h d) = 0 then - 1 else Key (h d)) \<rparr>), None))"
  unfolding assignEthernetCard_def Let_def by (cases "first_unused (mark_units (Key (h c)) (map h l) (replicate 10 False)) 0 <s 0") auto

text \<open>
  C1. For every device list, controller and device to attach,
  assignEthernetCard fails with its no-more-slots error exactly when each of
  the ten units from 7 to 16 is occupied on the controller by a device of the
  list; otherwise it returns no error, gives the device the key of the
  controller as controller key and the lowest unit from 7 to 16 that no
  device of the list occupies on the controller.
\<close>

theorem assignEthernetCard_lowest_free_unit:
  "(snd (assignEthernetCard h l d c) = Some NoMoreSlots
      \<longleftrightarrow> (\<forall>u. in_pci_range u \<longrightarrow> occupied h l c u)) \<and>
   (snd (assignEthernetCard h l d c) \<noteq> Some NoMoreSlots \<longrightarrow>
      snd (assignEthernetCard h l d c) = None \<and>
      ControllerKey (fst (assignEthernetCard h l d c) d) = Key (h c) \<and>
      (\<exists>u. UnitNumber (fst (assignEthernetCard h l d c) d) = Some u \<and>
           in_pci_range u \<and> \<not> occupied h l c u \<and>
           (\<forall>v. in_pci_range v \<and> v <s u \<longrightarrow> occupied h l c v)))"
proof (cases "\<forall>u. in_pci_range u \<longrightarrow> occupied h l c u")
  case True
  then show ?thesis using assign_full[OF True, of d] by simp
next
  case False
  then obtain j where j: "j < 10" "\<not> occupied h l c (word_of_nat j + 7)"
    "\<forall>i<j. occupied h l c (word_of_nat i + 7)" by (rule least_free_slot)
  note a = assign_free[OF j, of d]
  have low: "\<forall>v. in_pci_range v \<and> v <s word_of_nat j + 7 \<longrightarrow> occupied h l c v"
  proof (intro allI impI)
    fix v assume v: "in_pci_range v \<and> v <s word_of_nat j + 7"
    let ?i = "nat (sint (v - pciDeviceOffset))"
    from v slot_of_range[of v] have i: "?i < 10" "v = word_of_nat ?i + 7" by simp_all
    with v j(1) have "?i < j" using slot_less[of ?i j] by metis
    with j(3) i(2) show "occupied h l c v" by metis
  qed
  show ?thesis using False j(1,2) low range_of_slot[OF j(1)] by (simp add: a)
qed

lemma ten_units:
  "replicate 10 False = [False, False, False, False, False, False, False, False, False, False]"
  by (simp add: numeral_eq_Suc)

lemma example_assign:
  "assignEthernetCard example_store [0, 1] 2 0 =
     (example_store(2 := example_nic\<lparr> Key := - 1, ControllerKey := 100, UnitNumber := Some 8 \<rparr>),
      None)"
  by (simp add: assignEthernetCard_def example_store_def example_nic_def example_controller_def
      pciDeviceOffset_def ten_units word_sless_alt word_sle_eq)

lemma full_assign:
  "assignEthernetCard full_store [0, 1, 2, 3, 4, 5, 6, 7, 8, 9] d 10 = (full_store, Some NoMoreSlots)"
  by (simp add: assignEthernetCard_def full_store_def example_nic_def example_controller_def
      pciDeviceOffset_def ten_units word_sless_alt word_sle_eq)

theorem assignEthernetCard_lowest_free_unit_witness:
  "snd (assignEthernetCard example_store [0, 1] 2 0) = None \<and>
   UnitNumber (fst (assignEthernetCard example_store [0, 1] 2 0) 2) = Some 8 \<and>
   in_pci_range 7 \<and> 7 <s (8 :: int32) \<and> occupied example_store [0, 1] 0 7 \<and>
   \<not> occupied example_store [0, 1] 0 8 \<and>
   snd (assignEthernetCard full_store [0, 1, 2, 3, 4, 5, 6, 7, 8, 9] 11 10) = Some NoMoreSlots \<and>
   in_pci_range 16 \<and> occupied full_store [0, 1, 2, 3, 4, 5, 6, 7, 8, 9] 10 16"
  using assignEthernetCard_lowest_free_unit [of example_store "[0, 1]" 2 0]
    assignEthernetCard_lowest_free_unit [of full_store "[0, 1, 2, 3, 4, 5, 6, 7, 8, 9]" 11 10]
  unfolding example_assign full_assign fst_conv snd_conv
  by (simp add: in_pci_range_sint word_sless_alt occupied_def
      on_unit_def example_store_def example_nic_def example_controller_def)

text \<open>
  C5, as the claim states it, fails: a device that comes with key 0 leaves
  the allocator with key -1.
\<close>

theorem assignEthernetCard_key_counterexample:
  "Key (example_store 2) = 0 \<and>
   Key (fst (assignEthernetCard example_store [0, 1] 2 0) 2) \<noteq> Key (example_store 2)"
  unfolding example_assign fst_conv snd_conv
  by (simp add: example_store_def example_nic_def)

text \<open>
  C5, amended. For every device list, controller and device: the allocator
  changes no device of the store other than the device to attach, and of
  that device no field other than the controller key, the unit number and
  the key; the key is unchanged when it is not 0 and becomes -1 when it is 0
  and a unit is assigned; when the allocator fails the store is as it was.
\<close>

theorem assignEthernetCard_frame:
  "(\<forall>a. a \<noteq> d \<longrightarrow> fst (assignEthernetCard h l d c) a = h a) \<and>
   (fst (assignEthernetCard h l d c) d)
      \<lparr> ControllerKey := ControllerKey (h d), UnitNumber := UnitNumber (h d),
        Key := Key (h d) \<rparr> = h d \<and>
   (Key (h d) \<noteq> 0 \<longrightarrow> Key (fst (assignEthernetCard h l d c) d) = Key (h d)) \<and>
   (Key (h d) = 0 \<longrightarrow> snd (assignEthernetCard h l d c) = None \<longrightarrow>
      Key (fst (assignEthernetCard h l d c) d) = - 1) \<and>
   (snd (assignEthernetCard h l d c) \<noteq> None \<longrightarrow> fst (assignEthernetCard h l d c) = h)"
  using assign_cases [of h l d c] by auto

theorem assignEthernetCard_frame_witness:
  "(1 :: addr) \<noteq> 2 \<and> fst (assignEthernetCard example_store [0, 1] 2 0) 1 = example_store 1 \<and>
   Key (example_store 2) = 0 \<and> snd (assignEthernetCard example_store [0, 1] 2 0) = None \<and>
   Key (fst (assignEthernetCard example_store [0, 1] 2 0) 2) = - 1 \<and>
   Key (full_store 0) \<noteq> 0 \<and>
   snd (assignEthernetCard full_store [0, 1, 2, 3, 4, 5, 6, 7, 8, 9] 0 10) \<noteq> None \<and>
   fst (assignEthernetCard full_store [0, 1, 2, 3, 4, 5, 6, 7, 8, 9] 0 10) = full_store"
  using assignEthernetCard_frame [of 2 example_store "[0, 1]" 0]
    assignEthernetCard_frame [of 0 full_store "[0, 1, 2, 3, 4, 5, 6, 7, 8, 9]" 10]
  unfolding example_assign full_assign [of 0] fst_conv snd_conv
  by (simp add: example_store_def example_nic_def full_store_def)

section \<open>The two conversions\<close>

lemma to_card_supported:
  "supported_ethernet_card (DynType v) \<Longrightarrow> baseVirtualDeviceToBaseVirtualEthernetCard v = Inr v"
  by (cases "DynType v")
    (simp_all add: supported_ethernet_card_def baseVirtualDeviceToBaseVirtualEthernetCard_def)

lemma to_device_supported:
  "supported_ethernet_card (DynType v) \<Longrightarrow> baseVirtualEthernetCardToBaseVirtualDevice v = Inr v"
  by (cases "DynType v")
    (simp_all add: supported_ethernet_card_def baseVirtualEthernetCardToBaseVirtualDevice_def)

lemma to_card_unsupported:
  "\<not> supported_ethernet_card (DynType v) \<Longrightarrow>
   baseVirtualDeviceToBaseVirtualEthernetCard v = Inl (NotNetworkDevice (DynType v))"
  by (cases "DynType v")
    (simp_all add: supported_ethernet_card_def baseVirtualDeviceToBaseVirtualEthernetCard_def)

lemma to_device_unsupported:
  "\<not> supported_ethernet_card (DynType v) \<Longrightarrow>
   baseVirtualEthernetCardToBaseVirtualDevice v = Inl (Panic ''unknown ethernet card type'')"
  by (cases "DynType v")
    (simp_all add: supported_ethernet_card_def baseVirtualEthernetCardToBaseVirtualDevice_def)

lemma to_card_Inr:
  "baseVirtualDeviceToBaseVirtualEthernetCard v = Inr w \<Longrightarrow>
   w = v \<and> supported_ethernet_card (DynType v)"
  using to_card_supported [of v] to_card_unsupported [of v]
  by (cases "supported_ethernet_card (DynType v)") simp_all

text \<open>
  C10. For every value of one of the six card types the conversion to a
  device returns the value without a panic and the conversion back returns
  it again; each conversion fails (the first by its panic, the second by its
  error) exactly on the values outside the six types.
\<close>

theorem ethernet_card_round_trip:
  "(supported_ethernet_card (DynType v) \<longrightarrow>
      baseVirtualEthernetCardToBaseVirtualDevice v = Inr v \<and> round_trip v = Inr v) \<and>
   ((\<exists>e. baseVirtualDeviceToBaseVirtualEthernetCard v = Inl e)
      \<longleftrightarrow> \<not> supported_ethernet_card (DynType v)) \<and>
   ((\<exists>e. baseVirtualEthernetCardToBaseVirtualDevice v = Inl e)
      \<longleftrightarrow> \<not> supported_ethernet_card (DynType v))"
proof (cases "supported_ethernet_card (DynType v)")
  case True
  then show ?thesis
    by (simp add: round_trip_def to_card_supported to_device_supported)
next
  case False
  then show ?thesis
    by (simp add: to_card_unsupported to_device_unsupported)
qed

theorem ethernet_card_round_trip_witness:
  "supported_ethernet_card (DynType example_nic) \<and>
   round_trip example_nic = Inr example_nic \<and>
   \<not> supported_ethernet_card (DynType example_controller) \<and>
   baseVirtualDeviceToBaseVirtualEthernetCard example_controller =
     Inl (NotNetworkDevice (OtherDevice ''*types.VirtualPCIController''))"
  using ethernet_card_round_trip [of example_nic] ethernet_card_round_trip [of example_controller]
  by (simp add: supported_ethernet_card_def example_nic_def example_controller_def
      baseVirtualDeviceToBaseVirtualEthernetCard_def)

section \<open>Read\<close>

lemma data_Set_attr [simp]: "data (Set_attr r k v) = (data r)(k \<mapsto> v)"
  by (simp add: Set_attr_def)

text \<open>Read in two steps, for a device that was found and is a card of the
  six types.\<close>

lemma Read_failure:
  assumes "FindVirtualDevice r l = Inr vd" "supported_ethernet_card (DynType vd)"
    "read_network_id cl (Backing vd) = Inl e"
  shows "Read cl r l =
    (Set_attr r ''adapter_type'' (VString (read_adapter_type (DynType vd))), Some e)"
  using assms by (simp add: Read_def to_card_supported)

lemma Read_success:
  assumes "FindVirtualDevice r l = Inr vd" "supported_ethernet_card (DynType vd)"
    "read_network_id cl (Backing vd) = Inr netID"
  shows "snd (Read cl r l) = None \<and>
    data (fst (Read cl r l)) ''network_id'' = Some (VString netID) \<and>
    data (fst (Read cl r l)) ''adapter_type'' = Some (VString (read_adapter_type (DynType vd)))"
  using assms by (simp add: Read_def to_card_supported Let_def split: option.split)

lemma read_adapter_type_eq:
  "read_adapter_type t =
     (if t = VirtualVmxnet3 then ''vmxnet3'' else if t = VirtualE1000 then ''e1000''
      else ''unknown'')"
  by (cases t)
    (simp_all add: read_adapter_type_def networkInterfaceSubresourceTypeVmxnet3_def
      networkInterfaceSubresourceTypeE1000_def networkInterfaceSubresourceTypeUnknown_def)

text \<open>
  C9. For every device list in which the device of the sub-resource is found
  and is a card of one of the six types, Read leaves adapter_type set to
  vmxnet3 for VirtualVmxnet3, to e1000 for VirtualE1000 and to unknown for
  each of the other four types, and whether Read returns an error is decided
  by the backing of the card alone, never by the type of the card.
\<close>

theorem Read_adapter_type:
  assumes "FindVirtualDevice r l = Inr vd" and "supported_ethernet_card (DynType vd)"
  shows "data (fst (Read cl r l)) ''adapter_type'' =
           Some (VString (if DynType vd = VirtualVmxnet3 then ''vmxnet3''
                          else if DynType vd = VirtualE1000 then ''e1000''
                          else ''unknown'')) \<and>
         snd (Read cl r l) =
           (case read_network_id cl (Backing vd) of Inl e \<Rightarrow> Some e | Inr netID \<Rightarrow> None)"
proof (cases "read_network_id cl (Backing vd)")
  case (Inl e)
  show ?thesis
    using Read_failure [OF assms Inl] Inl by (simp add: read_adapter_type_eq)
next
  case (Inr netID)
  show ?thesis
    using Read_success [OF assms Inr] Inr by (simp add: read_adapter_type_eq)
qed

lemma example_find:
  "FindVirtualDevice example_subresource [example_controller, example_nic\<lparr>DynType := t, Backing := b\<rparr>]
     = Inr (example_nic\<lparr>DynType := t, Backing := b\<rparr>)"
  by (simp add: FindVirtualDevice_def example_subresource_def example_data_def
      example_controller_def example_nic_def)

theorem Read_adapter_type_witness:
  "FindVirtualDevice example_subresource
      [example_controller,
       example_nic\<lparr>DynType := VirtualE1000e, Backing := NetworkBackingInfo (Some example_network)\<rparr>]
     = Inr (example_nic\<lparr>DynType := VirtualE1000e,
                         Backing := NetworkBackingInfo (Some example_network)\<rparr>) \<and>
   supported_ethernet_card VirtualE1000e \<and>
   data (fst (Read example_client example_subresource
      [example_controller,
       example_nic\<lparr>DynType := VirtualE1000e, Backing := NetworkBackingInfo (Some example_network)\<rparr>]))
     ''adapter_type'' = Some (VString ''unknown'') \<and>
   snd (Read example_client example_subresource
      [example_controller,
       example_nic\<lparr>DynType := VirtualE1000e, Backing := NetworkBackingInfo (Some example_network)\<rparr>])
     = None"
  using Read_adapter_type
      [OF example_find [where t = VirtualE1000e and b = "NetworkBackingInfo (Some example_network)"],
       where cl = example_client]
  by (simp add: example_find supported_ethernet_card_def read_network_id_def)

lemma fails_read_iff:
  assumes "FindVirtualDevice r l = Inr vd" "supported_ethernet_card (DynType vd)"
    "read_network_id cl (Backing vd) = Inl e"
  shows "fails_read cl r l e"
  using Read_failure [OF assms] by (simp add: fails_read_def)

lemma stores_network_iff:
  assumes "FindVirtualDevice r l = Inr vd" "supported_ethernet_card (DynType vd)"
    "read_network_id cl (Backing vd) = Inr netID"
  shows "stores_network cl r l netID"
  using Read_success [OF assms] by (simp add: stores_network_def)

text \<open>
  C6, as the claim states it, fails: a card with a standard network backing
  that carries no network reference is found in the list, and Read returns
  an error and leaves the network id as it was.
\<close>

theorem Read_backing_counterexample:
  "FindVirtualDevice example_subresource
      [example_controller, example_nic\<lparr>DynType := VirtualE1000, Backing := NetworkBackingInfo None\<rparr>]
     = Inr (example_nic\<lparr>DynType := VirtualE1000, Backing := NetworkBackingInfo None\<rparr>) \<and>
   snd (Read example_client example_subresource
      [example_controller, example_nic\<lparr>DynType := VirtualE1000, Backing := NetworkBackingInfo None\<rparr>])
     = Some NoNetworkInformation \<and>
   data (fst (Read example_client example_subresource
      [example_controller, example_nic\<lparr>DynType := VirtualE1000, Backing := NetworkBackingInfo None\<rparr>]))
     ''network_id'' = data example_subresource ''network_id''"
proof -
  let ?nic = "example_nic\<lparr>DynType := VirtualE1000, Backing := NetworkBackingInfo None\<rparr>"
  have f: "FindVirtualDevice example_subresource [example_controller, ?nic] = Inr ?nic"
    by (rule example_find)
  have s: "supported_ethernet_card (DynType ?nic)"
    by (simp add: supported_ethernet_card_def)
  have n: "read_network_id example_client (Backing ?nic) = Inl NoNetworkInformation"
    by (simp add: read_network_id_def)
  from fails_read_iff [OF f s n] f show ?thesis
    by (simp add: fails_read_def)
qed

text \<open>
  C6, amended. For every device list in which the device of the
  sub-resource is found and is a card of one of the six types, Read
  dispatches on the backing of the card. A standard network backing with a
  network reference stores the value of the reference as network id, and one
  without a reference fails with an error; an opaque network backing and a
  distributed virtual port backing store the value of the reference of the
  network that the lookup returns, and return the error of the lookup when
  it fails; every other backing fails with the unknown-backing error that
  names the backing. A failing Read leaves the network id as it was.
\<close>

theorem Read_backing_dispatch:
  assumes "FindVirtualDevice r l = Inr vd" and "supported_ethernet_card (DynType vd)"
  shows "case Backing vd of
           NetworkBackingInfo network \<Rightarrow>
             (case network of
                None \<Rightarrow> fails_read cl r l NoNetworkInformation
              | Some n \<Rightarrow> stores_network cl r l (Value n))
         | OpaqueNetworkBackingInfo opaqueNetworkId \<Rightarrow>
             (case OpaqueNetworkFromNetworkID cl opaqueNetworkId of
                Inl e \<Rightarrow> fails_read cl r l e
              | Inr onet \<Rightarrow> stores_network cl r l (Value onet))
         | DistributedVirtualPortBackingInfo port \<Rightarrow>
             (case DVPortgroupFromKey cl (SwitchUuid port) (PortgroupKey port) of
                Inl e \<Rightarrow> fails_read cl r l e
              | Inr pg \<Rightarrow> stores_network cl r l (Value pg))
         | OtherBacking t \<Rightarrow> fails_read cl r l (UnknownBacking (OtherBacking t))
         | NilBacking \<Rightarrow> fails_read cl r l (UnknownBacking NilBacking)"
proof (cases "Backing vd")
  case (NetworkBackingInfo network)
  then show ?thesis
    using fails_read_iff [OF assms, of cl] stores_network_iff [OF assms, of cl]
    by (cases network) (simp_all add: read_network_id_def)
next
  case (OpaqueNetworkBackingInfo i)
  then show ?thesis
    using fails_read_iff [OF assms, of cl] stores_network_iff [OF assms, of cl]
    by (cases "OpaqueNetworkFromNetworkID cl i") (simp_all add: read_network_id_def)
next
  case (DistributedVirtualPortBackingInfo port)
  then show ?thesis
    using fails_read_iff [OF assms, of cl] stores_network_iff [OF assms, of cl]
    by (cases "DVPortgroupFromKey cl (SwitchUuid port) (PortgroupKey port)")
      (simp_all add: read_network_id_def)
next
  case (OtherBacking t)
  then show ?thesis
    using fails_read_iff [OF assms, of cl] by (simp add: read_network_id_def)
next
  case NilBacking
  then show ?thesis
    using fails_read_iff [OF assms, of cl] by (simp add: read_network_id_def)
qed

theorem Read_backing_dispatch_witness:
  "supported_ethernet_card VirtualVmxnet3 \<and>
   stores_network example_client example_subresource
     [example_controller,
      example_nic\<lparr>DynType := VirtualVmxnet3, Backing := NetworkBackingInfo (Some example_network)\<rparr>]
     ''network-11'' \<and>
   stores_network example_client example_subresource
     [example_controller,
      example_nic\<lparr>DynType := VirtualVmxnet3, Backing := OpaqueNetworkBackingInfo ''nsx-1''\<rparr>]
     ''network-o21'' \<and>
   fails_read example_client example_subresource
     [example_controller,
      example_nic\<lparr>DynType := VirtualVmxnet3,
                   Backing := DistributedVirtualPortBackingInfo
                     \<lparr>SwitchUuid = ''50 11'', PortgroupKey = ''dvportgroup-77''\<rparr>\<rparr>]
     (External ''portgroup not found'') \<and>
   fails_read example_client example_subresource
     [example_controller,
      example_nic\<lparr>DynType := VirtualVmxnet3,
                   Backing := OtherBacking ''*types.VirtualEthernetCardLegacyNetworkBackingInfo''\<rparr>]
     (UnknownBacking (OtherBacking ''*types.VirtualEthernetCardLegacyNetworkBackingInfo''))"
  using
    Read_backing_dispatch
      [OF example_find [where t = VirtualVmxnet3 and b = "NetworkBackingInfo (Some example_network)"],
       where cl = example_client]
    Read_backing_dispatch
      [OF example_find [where t = VirtualVmxnet3 and b = "OpaqueNetworkBackingInfo ''nsx-1''"],
       where cl = example_client]
    Read_backing_dispatch
      [OF example_find [where t = VirtualVmxnet3 and b = "DistributedVirtualPortBackingInfo
                     \<lparr>SwitchUuid = ''50 11'', PortgroupKey = ''dvportgroup-77''\<rparr>"],
       where cl = example_client]
    Read_backing_dispatch
      [OF example_find [where t = VirtualVmxnet3
         and b = "OtherBacking ''*types.VirtualEthernetCardLegacyNetworkBackingInfo''"],
       where cl = example_client]
  by (simp add: supported_ethernet_card_def example_client_def example_network_def)

section \<open>Update\<close>

lemma key_for_negative: "key_for k l <s 0"
  using key_for [of k] by simp

lemma key_for_example: "key_for example_new_key l = - 200"
  by (simp add: example_new_key_def Abs_new_key_inverse word_sless_alt)

lemma is_string_E: "is_string m k \<Longrightarrow> \<exists>s. m k = Some (VString s)"
  by (auto simp: is_string_def split: option.splits val.splits)

lemma is_int_E: "is_int m k \<Longrightarrow> \<exists>n. m k = Some (VInt n)"
  by (auto simp: is_int_def split: option.splits val.splits)

lemma is_bool_E: "is_bool m k \<Longrightarrow> \<exists>b. m k = Some (VBool b)"
  by (auto simp: is_bool_def split: option.splits val.splits)

lemma update_alloc_typed:
  assumes "attributes_typed (data r)"
  shows "\<exists>a. update_alloc r = Inr a"
proof -
  from assms obtain lim res cnt lev where
    "data r ''bandwidth_limit'' = Some (VInt lim)"
    "data r ''bandwidth_reservation'' = Some (VInt res)"
    "data r ''bandwidth_share_count'' = Some (VInt cnt)"
    "data r ''bandwidth_share_level'' = Some (VString lev)"
    unfolding attributes_typed_def by (meson is_int_E is_string_E)
  then show ?thesis by (simp add: update_alloc_def get_int_def get_string_def)
qed

text \<open>update_mac writes the address type and the MAC address only.\<close>

lemma update_mac_fields:
  "update_mac cl r d = Inr c \<Longrightarrow>
   Key c = Key d \<and> DynType c = DynType d \<and> ControllerKey c = ControllerKey d \<and>
   UnitNumber c = UnitNumber d \<and> Backing c = Backing d"
  by (auto simp: update_mac_def split: if_splits sum.splits)

lemma update_mac_typed:
  assumes "attributes_typed (data r)"
  shows "\<exists>c. update_mac cl r d = Inr c"
proof -
  from assms obtain b mac where
    "data r ''use_static_mac'' = Some (VBool b)" "data r ''mac_address'' = Some (VString mac)"
    unfolding attributes_typed_def by (meson is_bool_E is_string_E)
  then show ?thesis by (simp add: update_mac_def get_bool_def get_string_def)
qed

text \<open>Update from the device that the first part hands on.\<close>

lemma Update_tail:
  assumes "FindVirtualDevice r l = Inr vd" "supported_ethernet_card (DynType vd)"
    and "(if HasChange r ''device_type'' then replace_device cl r l vd else Inr ([], vd))
           = Inr (spec, dev)"
    and "supported_ethernet_card (DynType dev)"
    and "update_mac cl r dev = Inr c" and "update_alloc r = Inr a"
  shows "Update cl r l =
    Inr (spec @ [\<lparr> Operation = (if Key dev <s 0 then OperationAdd else OperationEdit),
                    Device = c\<lparr>ResourceAllocation := Some a\<rparr> \<rparr>])"
proof -
  from update_mac_fields [OF assms(5)] have k: "Key c = Key dev" "DynType c = DynType dev"
    by simp_all
  have s: "supported_ethernet_card (DynType (c\<lparr>ResourceAllocation := Some a\<rparr>))"
    using assms(4) k by simp
  show ?thesis
    unfolding Update_def
    by (simp add: assms(1,3,5,6) to_card_supported [OF assms(2)] to_device_supported [OF s]
        ConfigSpec_def k Let_def)
qed

lemma replace_device_ok:
  assumes "supported_ethernet_card (DynType vd)"
    and "data r ''adapter_type'' = Some (VString adapter)"
    and "CreateEthernetCard cl l adapter (Backing vd) = Inr nd"
    and "supported_ethernet_card (DynType nd)"
  shows "replace_device cl r l vd =
    Inr ([\<lparr> Operation = OperationRemove, Device = vd \<rparr>],
         nd\<lparr> ControllerKey := ControllerKey vd,
             UnitNumber := (case UnitNumber vd of None \<Rightarrow> UnitNumber nd | Some un \<Rightarrow> Some un),
             Key := key_for (NewKey cl) l \<rparr>)"
proof -
  have i: "implements_ethernet_card (DynType nd)"
    using assms(4) by (cases "DynType nd") (simp_all add: implements_ethernet_card_def supported_ethernet_card_def)
  show ?thesis
  proof (cases "UnitNumber vd")
    case None
    then show ?thesis
      unfolding replace_device_def
      using i assms(4)
      by (simp add: get_string_def assms(2,3) Let_def to_device_supported [OF assms(1)]
          ConfigSpec_def to_card_supported)
  next
    case (Some un)
    then show ?thesis
      unfolding replace_device_def
      using i assms(4)
      by (simp add: get_string_def assms(2,3) Let_def to_device_supported [OF assms(1)]
          ConfigSpec_def to_card_supported)
  qed
qed

text \<open>The shape of what replace_device returns, whatever card the library
  creates.\<close>

lemma replace_device_Inr:
  assumes "replace_device cl r l vd = Inr (spec, dev)"
  shows "spec = [\<lparr> Operation = OperationRemove, Device = vd \<rparr>] \<and>
         supported_ethernet_card (DynType dev) \<and> Key dev = key_for (NewKey cl) l \<and>
         ControllerKey dev = ControllerKey vd \<and>
         (UnitNumber vd \<noteq> None \<longrightarrow> UnitNumber dev = UnitNumber vd)"
proof -
  from assms obtain adapter nd where
    c: "CreateEthernetCard cl l adapter (Backing vd) = Inr nd"
    and rest: "(let newCard = nd\<lparr>ControllerKey := ControllerKey vd\<rparr>;
            newCard = (case UnitNumber vd of None \<Rightarrow> newCard
                       | Some un \<Rightarrow> newCard\<lparr>UnitNumber := Some un\<rparr>);
            newCard = newCard\<lparr>Key := key_for (NewKey cl) l\<rparr>
        in
        case baseVirtualEthernetCardToBaseVirtualDevice vd of Inl e \<Rightarrow> Inl e | Inr bvd \<Rightarrow>
        case ConfigSpec [bvd] OperationRemove of Inl e \<Rightarrow> Inl e | Inr dspec \<Rightarrow>
        case baseVirtualDeviceToBaseVirtualEthernetCard newCard of Inl e \<Rightarrow> Inl e
        | Inr device' \<Rightarrow> Inr ([] @ dspec, device')) = Inr (spec, dev)"
    unfolding replace_device_def Let_def by (auto split: sum.splits if_splits)
  let ?new = "nd\<lparr> ControllerKey := ControllerKey vd,
             UnitNumber := (case UnitNumber vd of None \<Rightarrow> UnitNumber nd | Some un \<Rightarrow> Some un),
             Key := key_for (NewKey cl) l \<rparr>"
  have new: "(case UnitNumber vd of None \<Rightarrow> nd\<lparr>ControllerKey := ControllerKey vd\<rparr>
              | Some un \<Rightarrow> nd\<lparr>ControllerKey := ControllerKey vd, UnitNumber := Some un\<rparr>)\<lparr>Key := key_for (NewKey cl) l\<rparr>
             = ?new"
    by (cases "UnitNumber vd") simp_all
  from rest obtain bvd where b: "baseVirtualEthernetCardToBaseVirtualDevice vd = Inr bvd"
    and d: "baseVirtualDeviceToBaseVirtualEthernetCard ?new = Inr dev"
    and sp: "spec = [\<lparr> Operation = OperationRemove, Device = bvd \<rparr>]"
    unfolding Let_def new by (auto simp: ConfigSpec_def split: sum.splits)
  have "bvd = vd"
    using b to_device_supported [of vd] to_device_unsupported [of vd]
    by (cases "supported_ethernet_card (DynType vd)") simp_all
  moreover from to_card_Inr [OF d] have "dev = ?new" "supported_ethernet_card (DynType dev)"
    by simp_all
  ultimately show ?thesis using sp by (cases "UnitNumber vd") auto
qed

lemma Update_unchanged_type:
  assumes "FindVirtualDevice r l = Inr vd" and "supported_ethernet_card (DynType vd)"
    and "attributes_typed (data r)" and "\<not> HasChange r ''device_type''"
  shows "\<exists>d. Update cl r l =
           Inr [\<lparr> Operation = (if Key vd <s 0 then OperationAdd else OperationEdit), Device = d \<rparr>]
         \<and> Key d = Key vd \<and> ControllerKey d = ControllerKey vd \<and> UnitNumber d = UnitNumber vd"
proof -
  from update_mac_typed [OF assms(3)] obtain c where c: "update_mac cl r vd = Inr c" by blast
  from update_alloc_typed [OF assms(3)] obtain a where a: "update_alloc r = Inr a" by blast
  have "Update cl r l =
    Inr ([] @ [\<lparr> Operation = (if Key vd <s 0 then OperationAdd else OperationEdit),
                  Device = c\<lparr>ResourceAllocation := Some a\<rparr> \<rparr>])"
    by (rule Update_tail [OF assms(1,2) _ assms(2) c a]) (simp add: assms(4))
  then show ?thesis using update_mac_fields [OF c] by simp
qed

lemma Update_changed_type:
  assumes "FindVirtualDevice r l = Inr vd" and "HasChange r ''device_type''"
    and "Update cl r l = Inr specs"
  shows "\<exists>d. specs = [\<lparr> Operation = OperationRemove, Device = vd \<rparr>,
                      \<lparr> Operation = OperationAdd, Device = d \<rparr>]
         \<and> Key d = key_for (NewKey cl) l \<and> Key d <s 0 \<and> ControllerKey d = ControllerKey vd
         \<and> (UnitNumber vd \<noteq> None \<longrightarrow> UnitNumber d = UnitNumber vd)"
proof -
  from assms(1,3) have sv: "supported_ethernet_card (DynType vd)"
    using to_card_unsupported [of vd]
    by (cases "supported_ethernet_card (DynType vd)") (simp_all add: Update_def)
  from assms obtain spec dev where rd: "replace_device cl r l vd = Inr (spec, dev)"
    by (cases "replace_device cl r l vd")
      (auto simp: Update_def to_card_supported [OF sv])
  note shape = replace_device_Inr [OF rd]
  from assms rd obtain c where c: "update_mac cl r dev = Inr c"
    by (cases "update_mac cl r dev") (auto simp: Update_def to_card_supported [OF sv])
  from assms rd c obtain a where a: "update_alloc r = Inr a"
    by (cases "update_alloc r") (auto simp: Update_def to_card_supported [OF sv])
  have "Update cl r l =
    Inr (spec @ [\<lparr> Operation = (if Key dev <s 0 then OperationAdd else OperationEdit),
                    Device = c\<lparr>ResourceAllocation := Some a\<rparr> \<rparr>])"
    using shape by (intro Update_tail [OF assms(1) sv _ _ c a]) (simp_all add: assms(2) rd)
  with assms(3) shape update_mac_fields [OF c] key_for_negative [of "NewKey cl" l]
  show ?thesis by auto
qed

lemma Update_changed_type_succeeds:
  assumes "FindVirtualDevice r l = Inr vd" and "supported_ethernet_card (DynType vd)"
    and "attributes_typed (data r)" and "HasChange r ''device_type''"
    and "data r ''adapter_type'' = Some (VString adapter)"
    and "CreateEthernetCard cl l adapter (Backing vd) = Inr nd"
    and "supported_ethernet_card (DynType nd)"
  shows "\<exists>specs. Update cl r l = Inr specs"
proof -
  note rd = replace_device_ok [OF assms(2,5,6,7)]
  let ?dev = "nd\<lparr> ControllerKey := ControllerKey vd,
             UnitNumber := (case UnitNumber vd of None \<Rightarrow> UnitNumber nd | Some un \<Rightarrow> Some un),
             Key := key_for (NewKey cl) l \<rparr>"
  from update_mac_typed [OF assms(3)] obtain c where c: "update_mac cl r ?dev = Inr c" by blast
  from update_alloc_typed [OF assms(3)] obtain a where a: "update_alloc r = Inr a" by blast
  have "Update cl r l =
    Inr ([\<lparr> Operation = OperationRemove, Device = vd \<rparr>] @
         [\<lparr> Operation = (if Key ?dev <s 0 then OperationAdd else OperationEdit),
            Device = c\<lparr>ResourceAllocation := Some a\<rparr> \<rparr>])"
    using assms(7) by (intro Update_tail [OF assms(1,2) _ _ c a]) (simp_all add: assms(4) rd)
  then show ?thesis by blast
qed

text \<open>No data of the schema holds a device_type attribute, so HasChange of
  device_type is false on it.\<close>

lemma schema_no_device_type:
  assumes "dom (olddata r) \<subseteq> set networkInterfaceSubresourceSchema"
    and "dom (data r) \<subseteq> set networkInterfaceSubresourceSchema"
  shows "\<not> HasChange r ''device_type''"
proof -
  have "''device_type'' \<notin> set networkInterfaceSubresourceSchema"
    by (simp add: networkInterfaceSubresourceSchema_def)
  with assms have "olddata r ''device_type'' = None" "data r ''device_type'' = None"
    by (auto simp: dom_def)
  then show ?thesis by (simp add: HasChange_def)
qed

text \<open>On data of the schema Update returns one spec, never a remove, whatever
  has changed.\<close>

lemma Update_schema_one_spec:
  assumes "FindVirtualDevice r l = Inr vd" and "supported_ethernet_card (DynType vd)"
    and "schema_typed (olddata r)" and "schema_typed (data r)"
  shows "\<exists>d. Update cl r l =
           Inr [\<lparr> Operation = (if Key vd <s 0 then OperationAdd else OperationEdit), Device = d \<rparr>]"
proof -
  from assms(3,4) have "\<not> HasChange r ''device_type''"
    by (intro schema_no_device_type) (simp_all add: schema_typed_def)
  moreover from assms(4) have "attributes_typed (data r)" by (simp add: schema_typed_def)
  ultimately show ?thesis using Update_unchanged_type [OF assms(1,2)] by blast
qed

lemma example_find_nic:
  "FindVirtualDevice example_subresource [example_controller, example_nic] = Inr example_nic"
  using example_find [where t = VirtualE1000 and b = "NetworkBackingInfo (Some example_network)"]
  by (simp add: example_nic_def)

lemma example_Update:
  "Update example_client example_subresource [example_controller, example_nic] =
     Inr [\<lparr> Operation = OperationEdit,
            Device = example_nic\<lparr>ResourceAllocation := Some example_alloc\<rparr> \<rparr>]"
proof -
  have m: "update_mac example_client example_subresource example_nic = Inr example_nic"
    by (simp add: update_mac_def HasChange_def example_subresource_def)
  have a: "update_alloc example_subresource = Inr example_alloc"
    by (simp add: update_alloc_def get_int_def get_string_def example_subresource_def
        example_data_def example_alloc_def)
  have s: "supported_ethernet_card (DynType example_nic)"
    by (simp add: supported_ethernet_card_def example_nic_def)
  have h: "\<not> HasChange example_subresource ''device_type''"
    by (simp add: HasChange_def example_subresource_def example_data_def)
  have k: "\<not> Key example_nic <s 0"
    by (simp add: example_nic_def word_sless_alt)
  show ?thesis
    using Update_tail [OF example_find_nic s _ s m a, where spec = "[]"] h k by simp
qed

text \<open>
  C2 fails on the code. The adapter type of the entry of example_nic has
  changed from e1000 to vmxnet3 and its data is data of the schema, and
  Update returns a single edit spec of the old device, of type VirtualE1000
  still: no remove spec and no add spec of a new device. Update looks for a
  change of device_type, an attribute that the schema does not have.
\<close>

theorem Update_adapter_type_change_edits:
  "olddata example_subresource ''adapter_type'' = Some (VString ''e1000'') \<and>
   data example_subresource ''adapter_type'' = Some (VString ''vmxnet3'') \<and>
   HasChange example_subresource ''adapter_type'' \<and>
   schema_typed (olddata example_subresource) \<and> schema_typed (data example_subresource) \<and>
   \<not> HasChange example_subresource ''device_type'' \<and>
   Update example_client example_subresource [example_controller, example_nic] =
     Inr [\<lparr> Operation = OperationEdit,
            Device = example_nic\<lparr>ResourceAllocation := Some example_alloc\<rparr> \<rparr>] \<and>
   DynType (example_nic\<lparr>ResourceAllocation := Some example_alloc\<rparr>) = VirtualE1000"
proof -
  have "schema_typed (olddata example_subresource)" "schema_typed (data example_subresource)"
    by (simp_all add: schema_typed_def attributes_typed_def is_int_def is_string_def is_bool_def
        example_subresource_def example_data_def networkInterfaceSubresourceSchema_def
        dom_map_of_conv_image_fst)
  moreover have "HasChange example_subresource ''adapter_type''"
    "\<not> HasChange example_subresource ''device_type''"
    "olddata example_subresource ''adapter_type'' = Some (VString ''e1000'')"
    "data example_subresource ''adapter_type'' = Some (VString ''vmxnet3'')"
    by (simp_all add: HasChange_def example_subresource_def example_data_def)
  ultimately show ?thesis
    by (simp add: example_Update) (simp add: example_nic_def)
qed

text \<open>
  C7. For every device list in which the device of the sub-resource is found
  and is a card of one of the six types, and declared data that holds the
  attributes Update reads. When device_type has not changed, which is so for
  all data of the schema, Update returns one change spec, with the add
  operation when the key of the device is negative and with the edit
  operation when it is not, and the device of the spec keeps the key. The
  replacement, whenever it returns, pushes the remove spec of the old device
  and hands on a new device whose key is the new key of the library, which
  is negative. When device_type has changed, the replacement is made: Update
  returns whenever the library creates a card of one of the six types, and
  what it returns is the remove spec of the old device followed by the spec
  of the new device, with that negative key and the add operation.
\<close>

theorem Update_final_operation:
  assumes "FindVirtualDevice r l = Inr vd" and "supported_ethernet_card (DynType vd)"
    and "attributes_typed (data r)"
  shows "(dom (olddata r) \<subseteq> set networkInterfaceSubresourceSchema \<and>
          dom (data r) \<subseteq> set networkInterfaceSubresourceSchema \<longrightarrow>
            \<not> HasChange r ''device_type'') \<and>
         (\<not> HasChange r ''device_type'' \<longrightarrow>
            (\<exists>d. Update cl r l =
                   Inr [\<lparr> Operation = (if Key vd <s 0 then OperationAdd else OperationEdit),
                          Device = d \<rparr>]
                 \<and> Key d = Key vd)) \<and>
         (\<forall>spec dev. replace_device cl r l vd = Inr (spec, dev) \<longrightarrow>
            spec = [\<lparr> Operation = OperationRemove, Device = vd \<rparr>] \<and>
            Key dev = key_for (NewKey cl) l \<and> Key dev <s 0) \<and>
         (HasChange r ''device_type'' \<longrightarrow>
            (\<forall>specs. Update cl r l = Inr specs \<longrightarrow>
               (\<exists>d. specs =
                      [\<lparr> Operation = OperationRemove, Device = vd \<rparr>,
                       \<lparr> Operation = OperationAdd, Device = d \<rparr>]
                    \<and> Key d = key_for (NewKey cl) l \<and> Key d <s 0)) \<and>
            (\<forall>adapter nd.
               data r ''adapter_type'' = Some (VString adapter) \<longrightarrow>
               CreateEthernetCard cl l adapter (Backing vd) = Inr nd \<longrightarrow>
               supported_ethernet_card (DynType nd) \<longrightarrow>
               (\<exists>specs. Update cl r l = Inr specs)))"
proof -
  have block: "\<forall>spec dev. replace_device cl r l vd = Inr (spec, dev) \<longrightarrow>
            spec = [\<lparr> Operation = OperationRemove, Device = vd \<rparr>] \<and>
            Key dev = key_for (NewKey cl) l \<and> Key dev <s 0"
    using replace_device_Inr [of cl r l vd] key_for_negative [of "NewKey cl" l] by auto
  have schema: "dom (olddata r) \<subseteq> set networkInterfaceSubresourceSchema \<and>
          dom (data r) \<subseteq> set networkInterfaceSubresourceSchema \<longrightarrow>
            \<not> HasChange r ''device_type''"
    using schema_no_device_type [of r] by blast
  show ?thesis
  proof (cases "HasChange r ''device_type''")
    case False
    then show ?thesis using schema block Update_unchanged_type [OF assms False, of cl] by blast
  next
    case True
    have shape: "\<forall>specs. Update cl r l = Inr specs \<longrightarrow>
               (\<exists>d. specs =
                      [\<lparr> Operation = OperationRemove, Device = vd \<rparr>,
                       \<lparr> Operation = OperationAdd, Device = d \<rparr>]
                    \<and> Key d = key_for (NewKey cl) l \<and> Key d <s 0)"
      using Update_changed_type [OF assms(1) True] by blast
    have total: "\<forall>adapter nd.
               data r ''adapter_type'' = Some (VString adapter) \<longrightarrow>
               CreateEthernetCard cl l adapter (Backing vd) = Inr nd \<longrightarrow>
               supported_ethernet_card (DynType nd) \<longrightarrow>
               (\<exists>specs. Update cl r l = Inr specs)"
      using Update_changed_type_succeeds [OF assms True] by blast
    from True schema block shape total show ?thesis by blast
  qed
qed

lemma pending_find:
  "FindVirtualDevice pending_subresource [example_controller, example_nic\<lparr>Key := - 5\<rparr>]
     = Inr (example_nic\<lparr>Key := - 5\<rparr>)"
  by (simp add: FindVirtualDevice_def pending_subresource_def example_data_def
      example_controller_def example_nic_def)

lemma device_type_find:
  "FindVirtualDevice device_type_subresource [example_controller, example_nic] = Inr example_nic"
  by (simp add: FindVirtualDevice_def device_type_subresource_def example_data_def
      example_controller_def example_nic_def)

lemma example_typed:
  "attributes_typed (data example_subresource)"
  "attributes_typed (data pending_subresource)"
  "attributes_typed (data device_type_subresource)"
  by (simp_all add: attributes_typed_def is_int_def is_string_def is_bool_def
      example_subresource_def pending_subresource_def device_type_subresource_def example_data_def)

theorem Update_final_operation_witness:
  "dom (olddata example_subresource) \<subseteq> set networkInterfaceSubresourceSchema \<and>
   dom (data example_subresource) \<subseteq> set networkInterfaceSubresourceSchema \<and>
   \<not> HasChange example_subresource ''device_type'' \<and> \<not> Key example_nic <s 0 \<and>
   (\<exists>d. Update example_client example_subresource [example_controller, example_nic] =
          Inr [\<lparr> Operation = OperationEdit, Device = d \<rparr>]) \<and>
   (\<exists>dev. replace_device example_client example_subresource [example_controller, example_nic]
            example_nic =
          Inr ([\<lparr> Operation = OperationRemove, Device = example_nic \<rparr>], dev) \<and>
        Key dev = - 200 \<and> Key dev <s 0) \<and>
   \<not> HasChange pending_subresource ''device_type'' \<and> Key (example_nic\<lparr>Key := - 5\<rparr>) <s 0 \<and>
   (\<exists>d. Update example_client pending_subresource
            [example_controller, example_nic\<lparr>Key := - 5\<rparr>] =
          Inr [\<lparr> Operation = OperationAdd, Device = d \<rparr>]) \<and>
   HasChange device_type_subresource ''device_type'' \<and>
   key_for (NewKey example_client) [example_controller, example_nic] = - 200 \<and>
   (\<exists>d. Update example_client device_type_subresource [example_controller, example_nic] =
          Inr [\<lparr> Operation = OperationRemove, Device = example_nic \<rparr>,
               \<lparr> Operation = OperationAdd, Device = d \<rparr>])"
proof -
  have s: "supported_ethernet_card (DynType example_nic)"
    "supported_ethernet_card (DynType (example_nic\<lparr>Key := - 5\<rparr>))"
    by (simp_all add: supported_ethernet_card_def example_nic_def)
  have sch: "dom (olddata example_subresource) \<subseteq> set networkInterfaceSubresourceSchema"
    "dom (data example_subresource) \<subseteq> set networkInterfaceSubresourceSchema"
    by (simp_all add: example_subresource_def example_data_def
        networkInterfaceSubresourceSchema_def dom_map_of_conv_image_fst)
  have h: "\<not> HasChange example_subresource ''device_type''"
    "\<not> HasChange pending_subresource ''device_type''"
    "HasChange device_type_subresource ''device_type''"
    by (simp_all add: HasChange_def example_subresource_def pending_subresource_def
        device_type_subresource_def example_data_def)
  have k: "\<not> Key example_nic <s 0" "Key (example_nic\<lparr>Key := - 5\<rparr>) <s 0"
    "key_for (NewKey example_client) [example_controller, example_nic] = - 200"
    by (simp_all add: example_nic_def example_client_def word_sless_alt key_for_example)
  have c: "data device_type_subresource ''adapter_type'' = Some (VString ''vmxnet3'')"
    "CreateEthernetCard example_client [example_controller, example_nic] ''vmxnet3''
       (Backing example_nic) = Inr (new_card VirtualVmxnet3 (Backing example_nic))"
    "supported_ethernet_card (DynType (new_card VirtualVmxnet3 (Backing example_nic)))"
    by (simp_all add: device_type_subresource_def example_client_def new_card_def
        supported_ethernet_card_def)
  note t1 = Update_final_operation [OF example_find_nic s(1) example_typed(1), of example_client]
  note t2 = Update_final_operation [OF pending_find s(2) example_typed(2), of example_client]
  note t3 = Update_final_operation [OF device_type_find s(1) example_typed(3), of example_client]
  have "data example_subresource ''adapter_type'' = Some (VString ''vmxnet3'')"
    by (simp add: example_subresource_def)
  from replace_device_ok [OF s(1) this c(2,3)] obtain dev where
    rd: "replace_device example_client example_subresource [example_controller, example_nic]
           example_nic = Inr ([\<lparr> Operation = OperationRemove, Device = example_nic \<rparr>], dev)"
    by blast
  with t1 k(3) have e0:
    "\<exists>dev. replace_device example_client example_subresource [example_controller, example_nic]
            example_nic =
          Inr ([\<lparr> Operation = OperationRemove, Device = example_nic \<rparr>], dev) \<and>
        Key dev = - 200 \<and> Key dev <s 0"
    by auto
  from t1 h(1) k(1) have e1:
    "\<exists>d. Update example_client example_subresource [example_controller, example_nic] =
          Inr [\<lparr> Operation = OperationEdit, Device = d \<rparr>]"
    by auto
  from t2 h(2) k(2) have e2:
    "\<exists>d. Update example_client pending_subresource
            [example_controller, example_nic\<lparr>Key := - 5\<rparr>] =
          Inr [\<lparr> Operation = OperationAdd, Device = d \<rparr>]"
    by auto
  from t3 h(3) c obtain specs where
    u: "Update example_client device_type_subresource [example_controller, example_nic] = Inr specs"
    by blast
  with t3 h(3) have e3:
    "\<exists>d. Update example_client device_type_subresource [example_controller, example_nic] =
          Inr [\<lparr> Operation = OperationRemove, Device = example_nic \<rparr>,
               \<lparr> Operation = OperationAdd, Device = d \<rparr>]"
    by auto
  from sch h k e0 e1 e2 e3 show ?thesis by blast
qed

section \<open>The clone workflow\<close>

text \<open>The outcomes of validateCloneSnapshots, one by one.\<close>

lemma validateCloneSnapshots_no_snapshot:
  "Snapshot props = None \<Longrightarrow> Config props = Some config \<Longrightarrow>
   validateCloneSnapshots props = Some (MustHaveSnapshot (Uuid config))"
  by (simp add: validateCloneSnapshots_def error_of_uuid_def)

lemma validateCloneSnapshots_root_count:
  "Snapshot props = Some s \<Longrightarrow> length (RootSnapshotList s) \<noteq> 1 \<Longrightarrow>
   Config props = Some config \<Longrightarrow>
   validateCloneSnapshots props =
     Some (MustHaveExactlyOneRootSnapshot (Uuid config) (length (RootSnapshotList s)))"
  by (simp add: validateCloneSnapshots_def error_of_uuid_def)

lemma validateCloneSnapshots_children:
  "Snapshot props = Some s \<Longrightarrow> RootSnapshotList s = [t] \<Longrightarrow> ChildSnapshotList t \<noteq> [] \<Longrightarrow>
   Config props = Some config \<Longrightarrow>
   validateCloneSnapshots props = Some (RootSnapshotMustNotHaveChildren (Uuid config))"
  by (simp add: validateCloneSnapshots_def error_of_uuid_def)

lemma validateCloneSnapshots_mismatch:
  "Snapshot props = Some s \<Longrightarrow> RootSnapshotList s = [t] \<Longrightarrow> ChildSnapshotList t = [] \<Longrightarrow>
   CurrentSnapshot s = Some current \<Longrightarrow> Value current \<noteq> Value (Tree_Snapshot t) \<Longrightarrow>
   Config props = Some config \<Longrightarrow>
   validateCloneSnapshots props = Some (CurrentSnapshotMustMatchRoot (Uuid config))"
  by (simp add: validateCloneSnapshots_def error_of_uuid_def)

text \<open>With a nil Config the function returns without a panic only when the
  snapshots are valid: each of its errors reads the Uuid.\<close>

lemma validateCloneSnapshots_nil_config:
  "Config props = None \<Longrightarrow>
   validateCloneSnapshots props = None \<or>
   validateCloneSnapshots props = Some NilPointerDereference"
  by (simp add: validateCloneSnapshots_def error_of_uuid_def split: option.splits)

lemma validateCloneSnapshots_no_current:
  "Snapshot props = Some s \<Longrightarrow> RootSnapshotList s = [t] \<Longrightarrow> ChildSnapshotList t = [] \<Longrightarrow>
   CurrentSnapshot s = None \<Longrightarrow>
   validateCloneSnapshots props = Some NilPointerDereference"
  by (simp add: validateCloneSnapshots_def)

lemma length_one_iff: "length xs = Suc 0 \<longleftrightarrow> (\<exists>x. xs = [x])"
  by (cases xs) auto

lemma validateCloneSnapshots_succeeds_iff:
  "validateCloneSnapshots props = None \<longleftrightarrow>
     (\<exists>s t current. Snapshot props = Some s \<and> RootSnapshotList s = [t] \<and>
        ChildSnapshotList t = [] \<and> CurrentSnapshot s = Some current \<and>
        Value current = Value (Tree_Snapshot t))"
  by (auto simp: validateCloneSnapshots_def error_of_uuid_def length_one_iff
      split: option.splits if_splits)

text \<open>
  C3 fails on the code. The source has one root snapshot without children
  and no current snapshot, so the current snapshot differs from the root
  snapshot; validateCloneSnapshots reads the value of the current snapshot
  through the nil pointer and panics, where the claim has it fail with the
  error of a snapshot mismatch.
\<close>

theorem validateCloneSnapshots_nil_current:
  "Snapshot no_current_vm =
     Some \<lparr> CurrentSnapshot = None,
            RootSnapshotList = [VirtualMachineSnapshotTree example_snapshot []] \<rparr> \<and>
   Config no_current_vm =
     Some \<lparr> Uuid = ''4211-aa'', Hardware_Device = [example_controller, example_nic] \<rparr> \<and>
   validateCloneSnapshots no_current_vm = Some NilPointerDereference \<and>
   validateCloneSnapshots no_current_vm \<noteq> Some (CurrentSnapshotMustMatchRoot ''4211-aa'')"
  by (simp add: validateCloneSnapshots_def no_current_vm_def example_vm_def)

lemma validate_not_powered_off:
  assumes "FromUUID c (template_uuid d) = Inr vm" and "Properties c vm = Inr vprops"
    and "Runtime_PowerState vprops \<noteq> VirtualMachinePowerStatePoweredOff"
  shows "ValidateVirtualMachineClone c d = Some (MustBePoweredOff (template_uuid d))"
  using assms by (simp add: ValidateVirtualMachineClone_def)

text \<open>ExpandVirtualMachineCloneSpec does not read the power state.\<close>

lemma validateCloneSnapshots_power_state [simp]:
  "validateCloneSnapshots (vprops\<lparr>Runtime_PowerState := s\<rparr>) = validateCloneSnapshots vprops"
  by (simp add: validateCloneSnapshots_def error_of_uuid_def split: option.split)

lemma Expand_ignores_power_state:
  "ExpandVirtualMachineCloneSpec (with_power_state s c) d = ExpandVirtualMachineCloneSpec c d"
  by (simp add: ExpandVirtualMachineCloneSpec_def with_power_state_def Let_def
      split: sum.splits option.splits)

lemma example_Expand:
  "ExpandVirtualMachineCloneSpec (example_workflow_client example_vm) example_clone =
     (\<lparr> Location = \<lparr> Datastore = Some \<lparr> Type = ''Datastore'', Value = ''datastore-5'' \<rparr>,
                     DiskMoveType = ''createNewChildDiskBacking'', Disk = [0] \<rparr>,
        Spec_Snapshot = Some example_snapshot \<rparr>, None)"
  by (simp add: ExpandVirtualMachineCloneSpec_def example_workflow_client_def example_clone_def
      example_vm_def validateCloneSnapshots_def zero_spec_def Let_def
      VirtualMachineRelocateDiskMoveOptionsCreateNewChildDiskBacking_def)

text \<open>
  C4, as the claim states it, fails: the source is powered on, a linked clone
  is requested, and ExpandVirtualMachineCloneSpec returns its spec without an
  error.
\<close>

theorem Expand_powered_on_counterexample:
  "Runtime_PowerState example_vm \<noteq> VirtualMachinePowerStatePoweredOff \<and>
   Properties (example_workflow_client example_vm) \<lparr> Type = ''VirtualMachine'', Value = ''vm-7'' \<rparr>
     = Inr example_vm \<and>
   linked_clone example_clone \<and>
   snd (ExpandVirtualMachineCloneSpec (example_workflow_client example_vm) example_clone) = None"
  unfolding example_Expand snd_conv
  by (simp add: example_vm_def example_workflow_client_def example_clone_def)

text \<open>
  C4, amended. For every source that is found and is not powered off,
  ValidateVirtualMachineClone fails with its must-be-powered-off error,
  whether or not a linked clone is requested and whatever the snapshots of
  the source are: the check of the power state comes before every check of
  the snapshots. ExpandVirtualMachineCloneSpec does not check the power
  state: what it returns is the same for every power state of the source.
\<close>

theorem ValidateVirtualMachineClone_power_state:
  assumes "FromUUID c (template_uuid d) = Inr vm" and "Properties c vm = Inr vprops"
    and "Runtime_PowerState vprops \<noteq> VirtualMachinePowerStatePoweredOff"
  shows "ValidateVirtualMachineClone c d = Some (MustBePoweredOff (template_uuid d)) \<and>
         ValidateVirtualMachineClone (c\<lparr>Properties := (\<lambda>v. Inr (vprops\<lparr>Snapshot := snapshot\<rparr>))\<rparr>)
             (d\<lparr>linked_clone := linked\<rparr>)
           = Some (MustBePoweredOff (template_uuid d)) \<and>
         ExpandVirtualMachineCloneSpec (with_power_state s c) d = ExpandVirtualMachineCloneSpec c d"
proof -
  have "ValidateVirtualMachineClone (c\<lparr>Properties := (\<lambda>v. Inr (vprops\<lparr>Snapshot := snapshot\<rparr>))\<rparr>)
             (d\<lparr>linked_clone := linked\<rparr>)
           = Some (MustBePoweredOff (template_uuid (d\<lparr>linked_clone := linked\<rparr>)))"
    by (rule validate_not_powered_off [where vm = vm and vprops = "vprops\<lparr>Snapshot := snapshot\<rparr>"])
      (simp_all add: assms)
  then show ?thesis
    using validate_not_powered_off [OF assms] Expand_ignores_power_state [of s c d] by simp
qed

theorem ValidateVirtualMachineClone_power_state_witness:
  "FromUUID (example_workflow_client example_vm) (template_uuid example_clone)
     = Inr \<lparr> Type = ''VirtualMachine'', Value = ''vm-7'' \<rparr> \<and>
   Runtime_PowerState example_vm \<noteq> VirtualMachinePowerStatePoweredOff \<and>
   ValidateVirtualMachineClone (example_workflow_client example_vm) example_clone
     = Some (MustBePoweredOff ''4211-aa'') \<and>
   ValidateVirtualMachineClone (example_workflow_client (example_vm\<lparr>Snapshot := None\<rparr>))
       (example_clone\<lparr>linked_clone := True\<rparr>)
     = Some (MustBePoweredOff ''4211-aa'')"
proof -
  have f: "FromUUID (example_workflow_client example_vm) (template_uuid example_clone)
     = Inr \<lparr> Type = ''VirtualMachine'', Value = ''vm-7'' \<rparr>"
    by (simp add: example_workflow_client_def example_clone_def)
  have p: "Properties (example_workflow_client example_vm) \<lparr> Type = ''VirtualMachine'', Value = ''vm-7'' \<rparr>
     = Inr example_vm"
    by (simp add: example_workflow_client_def)
  have s: "Runtime_PowerState example_vm \<noteq> VirtualMachinePowerStatePoweredOff"
    by (simp add: example_vm_def)
  have c: "(example_workflow_client example_vm)
             \<lparr>Properties := (\<lambda>v. Inr (example_vm\<lparr>Snapshot := None\<rparr>))\<rparr>
           = example_workflow_client (example_vm\<lparr>Snapshot := None\<rparr>)"
    by (simp add: example_workflow_client_def)
  from ValidateVirtualMachineClone_power_state [OF f p s, of None True] f s c show ?thesis
    by (simp add: example_clone_def)
qed

text \<open>Once the datastore is found, every spec that the function returns, with
  or without an error, has it as its target.\<close>

lemma Expand_datastore:
  assumes "DatastoreFromID c (datastore_id d) = Inr dsRef"
  shows "Datastore (Location (fst (ExpandVirtualMachineCloneSpec c d))) = Some dsRef"
  using assms
  by (auto simp: ExpandVirtualMachineCloneSpec_def Let_def zero_spec_def
      split: sum.splits option.splits)

text \<open>The function returns without an error only when each lookup succeeds
  and, for a linked clone, the snapshots are valid.\<close>

lemma Expand_success:
  assumes "ExpandVirtualMachineCloneSpec c d = (spec, None)"
  shows "\<exists>dsRef vm vprops config relocators.
           DatastoreFromID c (datastore_id d) = Inr dsRef \<and>
           FromUUID c (template_uuid d) = Inr vm \<and> Properties c vm = Inr vprops \<and>
           Config vprops = Some config \<and>
           DiskCloneRelocateOperation c d (Hardware_Device config) = Inr relocators \<and>
           (linked_clone d \<longrightarrow> validateCloneSnapshots vprops = None)"
  using assms
  by (auto simp: ExpandVirtualMachineCloneSpec_def Let_def split: sum.splits option.splits if_splits)

text \<open>A source without a configuration: when nothing has failed before, the
  read of its devices panics and no spec is built.\<close>

lemma Expand_nil_config:
  assumes "DatastoreFromID c (datastore_id d) = Inr dsRef"
    and "FromUUID c (template_uuid d) = Inr vm" and "Properties c vm = Inr vprops"
    and "linked_clone d \<longrightarrow> validateCloneSnapshots vprops = None"
    and "Config vprops = None"
  shows "snd (ExpandVirtualMachineCloneSpec c d) = Some NilPointerDereference"
proof (cases "linked_clone d")
  case False
  then show ?thesis
    using assms by (simp add: ExpandVirtualMachineCloneSpec_def Let_def)
next
  case True
  with assms(4) have v: "validateCloneSnapshots vprops = None" by simp
  then obtain s t current where "Snapshot vprops = Some s" "CurrentSnapshot s = Some current"
    unfolding validateCloneSnapshots_succeeds_iff by blast
  with True v show ?thesis
    using assms by (simp add: ExpandVirtualMachineCloneSpec_def Let_def)
qed

text \<open>When each lookup succeeds, the source has a configuration, the disk
  relocation succeeds and, for a linked clone, the snapshots are valid, the
  function returns its spec without an error.\<close>

lemma Expand_builds:
  assumes "DatastoreFromID c (datastore_id d) = Inr dsRef"
    and "FromUUID c (template_uuid d) = Inr vm" and "Properties c vm = Inr vprops"
    and "Config vprops = Some config"
    and "DiskCloneRelocateOperation c d (Hardware_Device config) = Inr relocators"
    and "linked_clone d \<longrightarrow> validateCloneSnapshots vprops = None"
  shows "\<exists>spec. ExpandVirtualMachineCloneSpec c d = (spec, None) \<and>
           Datastore (Location spec) = Some dsRef \<and>
           (linked_clone d \<longrightarrow>
              (\<exists>snapshot current. Snapshot vprops = Some snapshot \<and>
                 CurrentSnapshot snapshot = Some current \<and> Spec_Snapshot spec = Some current) \<and>
              DiskMoveType (Location spec) =
                VirtualMachineRelocateDiskMoveOptionsCreateNewChildDiskBacking) \<and>
           (\<not> linked_clone d \<longrightarrow> Spec_Snapshot spec = None \<and> DiskMoveType (Location spec) = [])"
proof (cases "linked_clone d")
  case False
  then show ?thesis
    using assms(1-5) by (simp add: ExpandVirtualMachineCloneSpec_def Let_def zero_spec_def)
next
  case True
  with assms(6) have "validateCloneSnapshots vprops = None" by simp
  then obtain s t current where v: "Snapshot vprops = Some s" "CurrentSnapshot s = Some current"
    unfolding validateCloneSnapshots_succeeds_iff by blast
  with True \<open>validateCloneSnapshots vprops = None\<close> show ?thesis
    using assms(1-5) by (simp add: ExpandVirtualMachineCloneSpec_def Let_def zero_spec_def)
qed

text \<open>
  C8. For every clone request. ExpandVirtualMachineCloneSpec returns a spec
  without an error or a panic exactly when the datastore, the source and the
  properties of the source are found, the source has a configuration, the
  disk relocation succeeds and, when a linked clone is requested, the
  snapshots are valid. Once the datastore is found, the target datastore of
  the spec is the reference of the datastore found. In a spec returned
  without an error: when a linked clone is requested, the snapshot of the
  spec is the current snapshot of the source and the disk move type is
  createNewChildDiskBacking; when it is not requested, the snapshot of the
  spec and the disk move type are unset.
\<close>

theorem ExpandVirtualMachineCloneSpec_builds:
  "(snd (ExpandVirtualMachineCloneSpec c d) = None \<longleftrightarrow>
      (\<exists>dsRef vm vprops config relocators.
           DatastoreFromID c (datastore_id d) = Inr dsRef \<and>
           FromUUID c (template_uuid d) = Inr vm \<and> Properties c vm = Inr vprops \<and>
           Config vprops = Some config \<and>
           DiskCloneRelocateOperation c d (Hardware_Device config) = Inr relocators \<and>
           (linked_clone d \<longrightarrow> validateCloneSnapshots vprops = None))) \<and>
   (\<forall>dsRef. DatastoreFromID c (datastore_id d) = Inr dsRef \<longrightarrow>
      Datastore (Location (fst (ExpandVirtualMachineCloneSpec c d))) = Some dsRef) \<and>
   (snd (ExpandVirtualMachineCloneSpec c d) = None \<longrightarrow>
      (linked_clone d \<longrightarrow>
         (\<exists>vm vprops snapshot current.
            FromUUID c (template_uuid d) = Inr vm \<and> Properties c vm = Inr vprops \<and>
            Snapshot vprops = Some snapshot \<and> CurrentSnapshot snapshot = Some current \<and>
            Spec_Snapshot (fst (ExpandVirtualMachineCloneSpec c d)) = Some current) \<and>
         DiskMoveType (Location (fst (ExpandVirtualMachineCloneSpec c d))) =
           VirtualMachineRelocateDiskMoveOptionsCreateNewChildDiskBacking) \<and>
      (\<not> linked_clone d \<longrightarrow>
         Spec_Snapshot (fst (ExpandVirtualMachineCloneSpec c d)) = None \<and>
         DiskMoveType (Location (fst (ExpandVirtualMachineCloneSpec c d))) = []))"
proof -
  let ?E = "ExpandVirtualMachineCloneSpec c d"
  let ?ok = "\<exists>dsRef vm vprops config relocators.
           DatastoreFromID c (datastore_id d) = Inr dsRef \<and>
           FromUUID c (template_uuid d) = Inr vm \<and> Properties c vm = Inr vprops \<and>
           Config vprops = Some config \<and>
           DiskCloneRelocateOperation c d (Hardware_Device config) = Inr relocators \<and>
           (linked_clone d \<longrightarrow> validateCloneSnapshots vprops = None)"
  have only_if: "?ok" if "snd ?E = None"
  proof -
    from that have "?E = (fst ?E, None)" by (simp add: prod_eq_iff)
    then show ?thesis by (rule Expand_success)
  qed
  have content: "snd ?E = None \<and>
      (linked_clone d \<longrightarrow>
         (\<exists>vm vprops snapshot current.
            FromUUID c (template_uuid d) = Inr vm \<and> Properties c vm = Inr vprops \<and>
            Snapshot vprops = Some snapshot \<and> CurrentSnapshot snapshot = Some current \<and>
            Spec_Snapshot (fst ?E) = Some current) \<and>
         DiskMoveType (Location (fst ?E)) =
           VirtualMachineRelocateDiskMoveOptionsCreateNewChildDiskBacking) \<and>
      (\<not> linked_clone d \<longrightarrow>
         Spec_Snapshot (fst ?E) = None \<and> DiskMoveType (Location (fst ?E)) = [])" if "?ok"
  proof -
    from that obtain dsRef vm vprops config relocators where
      a: "DatastoreFromID c (datastore_id d) = Inr dsRef"
         "FromUUID c (template_uuid d) = Inr vm" "Properties c vm = Inr vprops"
         "Config vprops = Some config"
         "DiskCloneRelocateOperation c d (Hardware_Device config) = Inr relocators"
         "linked_clone d \<longrightarrow> validateCloneSnapshots vprops = None"
      by blast
    from Expand_builds [OF a] obtain spec where
      "?E = (spec, None)"
      "linked_clone d \<longrightarrow>
              (\<exists>snapshot current. Snapshot vprops = Some snapshot \<and>
                 CurrentSnapshot snapshot = Some current \<and> Spec_Snapshot spec = Some current) \<and>
              DiskMoveType (Location spec) =
                VirtualMachineRelocateDiskMoveOptionsCreateNewChildDiskBacking"
      "\<not> linked_clone d \<longrightarrow> Spec_Snapshot spec = None \<and> DiskMoveType (Location spec) = []"
      by blast
    with a(2,3) show ?thesis by auto
  qed
  have datastore: "\<forall>dsRef. DatastoreFromID c (datastore_id d) = Inr dsRef \<longrightarrow>
      Datastore (Location (fst ?E)) = Some dsRef"
    using Expand_datastore [of c d] by blast
  from only_if content datastore show ?thesis by blast
qed

lemma example_Expand_full:
  "ExpandVirtualMachineCloneSpec (example_workflow_client example_vm)
       (example_clone\<lparr>linked_clone := False\<rparr>) =
     (\<lparr> Location = \<lparr> Datastore = Some \<lparr> Type = ''Datastore'', Value = ''datastore-5'' \<rparr>,
                     DiskMoveType = [], Disk = [0] \<rparr>,
        Spec_Snapshot = None \<rparr>, None)"
  by (simp add: ExpandVirtualMachineCloneSpec_def example_workflow_client_def example_clone_def
      example_vm_def zero_spec_def Let_def)

theorem ExpandVirtualMachineCloneSpec_builds_witness:
  "snd (ExpandVirtualMachineCloneSpec (example_workflow_client example_vm) example_clone) = None \<and>
   linked_clone example_clone \<and>
   DatastoreFromID (example_workflow_client example_vm) (datastore_id example_clone)
     = Inr \<lparr> Type = ''Datastore'', Value = ''datastore-5'' \<rparr> \<and>
   Datastore (Location (fst (ExpandVirtualMachineCloneSpec (example_workflow_client example_vm)
       example_clone))) = Some \<lparr> Type = ''Datastore'', Value = ''datastore-5'' \<rparr> \<and>
   Spec_Snapshot (fst (ExpandVirtualMachineCloneSpec (example_workflow_client example_vm)
       example_clone)) = Some example_snapshot \<and>
   DiskMoveType (Location (fst (ExpandVirtualMachineCloneSpec (example_workflow_client example_vm)
       example_clone))) = ''createNewChildDiskBacking'' \<and>
   \<not> linked_clone (example_clone\<lparr>linked_clone := False\<rparr>) \<and>
   snd (ExpandVirtualMachineCloneSpec (example_workflow_client example_vm)
       (example_clone\<lparr>linked_clone := False\<rparr>)) = None \<and>
   Spec_Snapshot (fst (ExpandVirtualMachineCloneSpec (example_workflow_client example_vm)
       (example_clone\<lparr>linked_clone := False\<rparr>))) = None \<and>
   DiskMoveType (Location (fst (ExpandVirtualMachineCloneSpec (example_workflow_client example_vm)
       (example_clone\<lparr>linked_clone := False\<rparr>)))) = []"
  using
    ExpandVirtualMachineCloneSpec_builds [of "example_workflow_client example_vm" example_clone]
    ExpandVirtualMachineCloneSpec_builds
      [of "example_workflow_client example_vm" "example_clone\<lparr>linked_clone := False\<rparr>"]
  unfolding example_Expand example_Expand_full fst_conv snd_conv
  by (simp add: example_clone_def example_workflow_client_def)

end
